theory Spec2Isabelle
  imports Main "HOL-Library.Multiset"
begin

section \<open>The flat sales frame\<close>

text \<open>
  \<^verbatim>\<open>transform_data\<close> (\<^verbatim>\<open>dags/src/transformation_task.py\<close>) reads the table
  \<^verbatim>\<open>raw.sales_raw\<close> into a pandas frame, normalises it into six dimension tables
  and one fact table, and writes the seven tables into the schema \<^verbatim>\<open>processed\<close>.

  A text cell is a \<open>string option\<close>: \<open>None\<close> is the SQL NULL that pandas reads as a
  missing value. pandas treats two missing values as equal both in
  \<^verbatim>\<open>drop_duplicates\<close> and in the keys of \<^verbatim>\<open>merge\<close>, which is the equality of
  \<open>string option\<close>. The numeric columns are never compared by the code, only passed
  through, so their cell type is a parameter \<open>'n\<close>; so is the type \<open>'t\<close> of the
  invoice date, which is \<open>'r\<close> (as read) before \<^verbatim>\<open>pd.to_datetime\<close> and \<open>'d\<close> after it.
\<close>

type_synonym cell = "string option"

record ('n, 't) sales_row =
  retailer :: cell
  retailer_id :: cell
  invoice_date :: 't
  region :: cell
  state :: cell
  city :: cell
  product :: cell
  price_per_unit :: 'n
  units_sold :: 'n
  total_sales :: 'n
  operating_profit :: 'n
  operating_margin :: 'n
  sales_method :: cell

text \<open>
  A frame is its column labels and its rows. A field of a row is the cell of the column
  that carries that label after the renaming of lines 46 to 62; it is read only where
  the label is present.
\<close>

record ('n, 't) frame =
  labels :: "string list"
  rows :: "('n, 't) sales_row list"

subsection \<open>Column labels (lines 46 to 62)\<close>

definition rename_map :: "(string \<times> string) list" where
  "rename_map =
     [(''Retailer'', ''retailer''),
      (''Retailer ID'', ''retailer_id''),
      (''Invoice Date'', ''invoice_date''),
      (''Region'', ''region''),
      (''State'', ''state''),
      (''City'', ''city''),
      (''Product'', ''product''),
      (''Price per Unit'', ''price_per_unit''),
      (''Units Sold'', ''units_sold''),
      (''Total Sales'', ''total_sales''),
      (''Operating Proft'', ''operating_profit''),
      (''Operating Margin'', ''operating_margin''),
      (''Sales Method'', ''sales_method'')]"

definition rename_label :: "string \<Rightarrow> string" where
  "rename_label c = (case map_of rename_map c of Some c' \<Rightarrow> c' | None \<Rightarrow> c)"

text \<open>
  Line 62: \<^verbatim>\<open>c.strip().lower().replace(" ", "_")\<close>. \<^verbatim>\<open>str.strip\<close> and
  \<^verbatim>\<open>str.lower\<close> are Python's, over all of Unicode; they are parameters here. A
  string is its UTF-8 bytes, in which the byte of the space stands for the space only.
\<close>

definition replace_space :: "string \<Rightarrow> string" where
  "replace_space s = map (\<lambda>c. if c = CHR '' '' then CHR ''_'' else c) s"

definition normalize_label :: "(string \<Rightarrow> string) \<Rightarrow> (string \<Rightarrow> string) \<Rightarrow> string \<Rightarrow> string" where
  "normalize_label strip lower c = replace_space (lower (strip c))"

definition clean_labels ::
  "(string \<Rightarrow> string) \<Rightarrow> (string \<Rightarrow> string) \<Rightarrow> string list \<Rightarrow> string list" where
  "clean_labels strip lower cs = map (normalize_label strip lower \<circ> rename_label) cs"

section \<open>The pandas operations the code uses\<close>

text \<open>
  \<^verbatim>\<open>drop_duplicates\<close> keeps the first row of every key and the order of the rows;
  \<open>seen\<close> is the set of keys met so far. With \<^verbatim>\<open>subset=[...]\<close> the key is the
  listed columns, without it the whole row.
\<close>

primrec drop_dups :: "('a \<Rightarrow> 'k) \<Rightarrow> 'k set \<Rightarrow> 'a list \<Rightarrow> 'a list" where
  "drop_dups key seen [] = []"
| "drop_dups key seen (x # xs) =
     (if key x \<in> seen then drop_dups key seen xs
      else x # drop_dups key (insert (key x) seen) xs)"

definition drop_duplicates_subset :: "('a \<Rightarrow> 'k) \<Rightarrow> 'a list \<Rightarrow> 'a list" where
  "drop_duplicates_subset key xs = drop_dups key {} xs"

definition drop_duplicates :: "'a list \<Rightarrow> 'a list" where
  "drop_duplicates xs = drop_duplicates_subset (\<lambda>x. x) xs"

text \<open>
  \<^verbatim>\<open>left.merge(right, left_on=..., right_on=..., how='left')\<close>: the rows of the left
  frame in their order; each is paired with every right row of the same key, in the
  order of the right frame, or once with missing values when no right row has its key.
\<close>

definition merge_left ::
  "('a \<Rightarrow> 'k) \<Rightarrow> ('b \<Rightarrow> 'k) \<Rightarrow> 'a list \<Rightarrow> 'b list \<Rightarrow> ('a \<times> 'b option) list" where
  "merge_left left_on right_on left right =
     concat (map (\<lambda>l. let ms = filter (\<lambda>r. right_on r = left_on l) right
                      in if ms = [] then [(l, None)] else map (\<lambda>r. (l, Some r)) ms)
                 left)"

text \<open>
  \<^verbatim>\<open>t['k_id'] = t.index + 1\<close> after \<^verbatim>\<open>reset_index(drop=True)\<close>, or on the fresh
  index of a merge: the row at position \<open>i\<close> (from 0) gets \<open>i + 1\<close>.
\<close>

definition index_plus_1 :: "'a list \<Rightarrow> (nat \<times> 'a) list" where
  "index_plus_1 xs = enumerate 1 xs"

section \<open>The star schema (lines 68 to 144)\<close>

record retailer_row =
  dr_retailer_id :: cell
  dr_retailer_name :: cell

record region_row =
  rg_region_name :: cell
  rg_region_id :: nat

record state_row =
  st_state_name :: cell
  st_region_id :: "nat option"
  st_state_id :: nat

record city_row =
  ct_city_name :: cell
  ct_state_id :: "nat option"
  ct_city_id :: nat

record 'n product_row =
  pr_product_name :: cell
  pr_price_per_unit :: 'n
  pr_product_id :: nat

record sales_method_row =
  sm_method_name :: cell
  sm_sales_method_id :: nat

record ('n, 'd) fact_row =
  transaction_id :: nat
  f_retailer_id :: cell
  f_invoice_date :: 'd
  f_city_id :: "nat option"
  f_product_id :: "nat option"
  f_units_sold :: 'n
  f_total_sales :: 'n
  f_operating_profit :: 'n
  f_operating_margin :: 'n
  f_sales_method_id :: "nat option"
  f_region_id :: "nat option"

text \<open>
  A key that comes out of a left merge is a \<open>nat option\<close>: pandas fills it with a
  missing value where the merge found no row.
\<close>

definition dim_retailer :: "('n, 'd) sales_row list \<Rightarrow> retailer_row list" where
  "dim_retailer df =
     map (\<lambda>(i, n). \<lparr>dr_retailer_id = i, dr_retailer_name = n\<rparr>)
       (drop_duplicates (map (\<lambda>r. (retailer_id r, retailer r)) df))"

definition dim_region :: "('n, 'd) sales_row list \<Rightarrow> region_row list" where
  "dim_region df =
     map (\<lambda>(i, n). \<lparr>rg_region_name = n, rg_region_id = i\<rparr>)
       (index_plus_1 (drop_duplicates (map region df)))"

definition df_state_prep ::
  "('n, 'd) sales_row list \<Rightarrow> region_row list \<Rightarrow> ((cell \<times> cell) \<times> region_row option) list" where
  "df_state_prep df dim_region_t =
     merge_left snd rg_region_name
       (drop_duplicates (map (\<lambda>r. (state r, region r)) df)) dim_region_t"

definition dim_state :: "('n, 'd) sales_row list \<Rightarrow> region_row list \<Rightarrow> state_row list" where
  "dim_state df dim_region_t =
     map (\<lambda>(i, (s, rid)). \<lparr>st_state_name = s, st_region_id = rid, st_state_id = i\<rparr>)
       (index_plus_1 (drop_duplicates
          (map (\<lambda>((s, r), m). (s, map_option rg_region_id m))
             (df_state_prep df dim_region_t))))"

definition df_city_prep ::
  "('n, 'd) sales_row list \<Rightarrow> state_row list \<Rightarrow> ((cell \<times> cell) \<times> state_row option) list" where
  "df_city_prep df dim_state_t =
     merge_left snd st_state_name
       (drop_duplicates (map (\<lambda>r. (city r, state r)) df)) dim_state_t"

definition dim_city :: "('n, 'd) sales_row list \<Rightarrow> state_row list \<Rightarrow> city_row list" where
  "dim_city df dim_state_t =
     map (\<lambda>(i, (c, sid)). \<lparr>ct_city_name = c, ct_state_id = sid, ct_city_id = i\<rparr>)
       (index_plus_1 (drop_duplicates
          (map (\<lambda>((c, s), m). (c, map_option st_state_id m))
             (df_city_prep df dim_state_t))))"

definition dim_product :: "('n, 'd) sales_row list \<Rightarrow> 'n product_row list" where
  "dim_product df =
     map (\<lambda>(i, (p, price)). \<lparr>pr_product_name = p, pr_price_per_unit = price, pr_product_id = i\<rparr>)
       (index_plus_1 (drop_duplicates_subset fst
          (map (\<lambda>r. (product r, price_per_unit r)) df)))"

definition dim_sales_method :: "('n, 'd) sales_row list \<Rightarrow> sales_method_row list" where
  "dim_sales_method df =
     map (\<lambda>(i, n). \<lparr>sm_method_name = n, sm_sales_method_id = i\<rparr>)
       (index_plus_1 (drop_duplicates (map sales_method df)))"

text \<open>
  The four merges of lines 112 to 119. A row of \<open>fact_df\<close> is the input row with the
  dimension rows merged onto it so far.
\<close>

type_synonym ('n, 'd) fact_df_row =
  "(((('n, 'd) sales_row \<times> state_row option) \<times> city_row option)
      \<times> 'n product_row option) \<times> sales_method_row option"

definition fact_df ::
  "('n, 'd) sales_row list \<Rightarrow> state_row list \<Rightarrow> city_row list \<Rightarrow> 'n product_row list
     \<Rightarrow> sales_method_row list \<Rightarrow> ('n, 'd) fact_df_row list" where
  "fact_df df dim_state_t dim_city_t dim_product_t dim_sales_method_t =
     (let m1 = merge_left state st_state_name df dim_state_t;
          m2 = merge_left (\<lambda>(r, s). (city r, map_option st_state_id s))
                 (\<lambda>c. (ct_city_name c, ct_state_id c)) m1 dim_city_t;
          m3 = merge_left (\<lambda>((r, s), c). product r) pr_product_name m2 dim_product_t
      in merge_left (\<lambda>(((r, s), c), p). sales_method r) sm_method_name m3
           dim_sales_method_t)"

definition fact_row_of :: "nat \<times> ('n, 'd) fact_df_row \<Rightarrow> ('n, 'd) fact_row" where
  "fact_row_of = (\<lambda>(i, ((((r, s), c), p), m)).
     \<lparr>transaction_id = i,
      f_retailer_id = retailer_id r,
      f_invoice_date = invoice_date r,
      f_city_id = map_option ct_city_id c,
      f_product_id = map_option pr_product_id p,
      f_units_sold = units_sold r,
      f_total_sales = total_sales r,
      f_operating_profit = operating_profit r,
      f_operating_margin = operating_margin r,
      f_sales_method_id = map_option sm_sales_method_id m,
      f_region_id = Option.bind s st_region_id\<rparr>)"

definition fact_table ::
  "('n, 'd) sales_row list \<Rightarrow> state_row list \<Rightarrow> city_row list \<Rightarrow> 'n product_row list
     \<Rightarrow> sales_method_row list \<Rightarrow> ('n, 'd) fact_row list" where
  "fact_table df dim_state_t dim_city_t dim_product_t dim_sales_method_t =
     map fact_row_of
       (index_plus_1 (fact_df df dim_state_t dim_city_t dim_product_t dim_sales_method_t))"

record ('n, 'd) star =
  tbl_retailer :: "retailer_row list"
  tbl_region :: "region_row list"
  tbl_state :: "state_row list"
  tbl_city :: "city_row list"
  tbl_product :: "'n product_row list"
  tbl_sales_method :: "sales_method_row list"
  tbl_sales_transaction :: "('n, 'd) fact_row list"

definition normalization :: "('n, 'd) sales_row list \<Rightarrow> ('n, 'd) star" where
  "normalization df =
     (let dim_region_t = dim_region df;
          dim_state_t = dim_state df dim_region_t;
          dim_city_t = dim_city df dim_state_t;
          dim_product_t = dim_product df;
          dim_sales_method_t = dim_sales_method df
      in \<lparr>tbl_retailer = dim_retailer df,
          tbl_region = dim_region_t,
          tbl_state = dim_state_t,
          tbl_city = dim_city_t,
          tbl_product = dim_product_t,
          tbl_sales_method = dim_sales_method_t,
          tbl_sales_transaction =
            fact_table df dim_state_t dim_city_t dim_product_t dim_sales_method_t\<rparr>)"

section \<open>The run of \<^verbatim>\<open>transform_data\<close>\<close>

text \<open>
  The exceptions the body can raise, all of them instances of \<^verbatim>\<open>Exception\<close>.
  \<open>SQLAlchemyError\<close> stands for that class and its subclasses, \<open>KeyError\<close> is a
  label that a frame does not have, \<open>ValueError\<close> a value that cannot be converted or
  a table that does not exist, \<open>OtherException\<close> any other one (a missing database
  driver, say).
\<close>

datatype exn = SQLAlchemyError | KeyError | ValueError | OtherException

datatype exn_class = SQLAlchemyError_class | Exception_class

fun isinstance :: "exn \<Rightarrow> exn_class \<Rightarrow> bool" where
  "isinstance e Exception_class = True"
| "isinstance e SQLAlchemyError_class = (e = SQLAlchemyError)"

text \<open>The levels of Python's \<^verbatim>\<open>logging\<close> and the messages the function writes.\<close>

datatype level = DEBUG | INFO | WARNING | ERROR | CRITICAL

datatype message =
    Establishing_connection
  | Connection_successful
  | Reading_data
  | Data_read nat nat
  | Date_transformed
  | Normalization_complete
  | Loading_table string nat
  | All_tables_loaded
  | Database_error exn
  | Unexpected_error exn

datatype ('n, 'd) table =
    Retailer "retailer_row list"
  | Region "region_row list"
  | State "state_row list"
  | City "city_row list"
  | Product "'n product_row list"
  | Sales_method "sales_method_row list"
  | Sales_transaction "('n, 'd) fact_row list"

fun len :: "('n, 'd) table \<Rightarrow> nat" where
  "len (Retailer t) = length t"
| "len (Region t) = length t"
| "len (State t) = length t"
| "len (City t) = length t"
| "len (Product t) = length t"
| "len (Sales_method t) = length t"
| "len (Sales_transaction t) = length t"

text \<open>The column types of the \<^verbatim>\<open>dtype\<close> maps of lines 167 to 186.\<close>

datatype sql_type = Integer | String | Float | Date

type_synonym dtypes = "(string \<times> sql_type) list"

text \<open>
  What the run meets outside the function: whether \<^verbatim>\<open>create_engine\<close> and
  \<^verbatim>\<open>engine.connect\<close> raise, what \<^verbatim>\<open>pd.read_sql_table\<close> returns or raises,
  Python's \<^verbatim>\<open>str.strip\<close> and \<^verbatim>\<open>str.lower\<close>, how \<^verbatim>\<open>pd.to_datetime\<close>
  converts a cell (\<open>None\<close>: it raises), what \<^verbatim>\<open>to_sql\<close> does with a frame, a
  table name and a \<^verbatim>\<open>dtype\<close> map (it raises, or the destination stores a table,
  which is the frame where the column types take its values as they are), and the
  tables of the schema \<^verbatim>\<open>processed\<close> before the run. A write that raises leaves
  its table as it was; a write that succeeds replaces it
  (\<^verbatim>\<open>if_exists='replace'\<close>).
\<close>

record ('n, 'r, 'd) world =
  create_engine :: "exn option"
  connect :: "exn option"
  read_sql_table :: "exn + ('n, 'r) frame"
  str_strip :: "string \<Rightarrow> string"
  str_lower :: "string \<Rightarrow> string"
  to_datetime :: "'r \<Rightarrow> 'd option"
  to_sql :: "('n, 'd) table \<Rightarrow> string \<Rightarrow> dtypes \<Rightarrow> exn + ('n, 'd) table"
  processed :: "string \<Rightarrow> ('n, 'd) table option"

text \<open>
  What the run leaves: the log, whether \<open>engine\<close> is bound to an engine, whether that
  engine was disposed, the schema \<^verbatim>\<open>processed\<close>, and the exception that leaves the
  function, if any. The function has no \<^verbatim>\<open>return\<close> statement: where no exception
  leaves it, its value is \<^verbatim>\<open>None\<close>.
\<close>

record ('n, 'd) run =
  log :: "(level \<times> message) list"
  engine :: bool
  disposed :: bool
  sink :: "string \<Rightarrow> ('n, 'd) table option"
  propagated :: "exn option"

definition info :: "message \<Rightarrow> ('n, 'd) run \<Rightarrow> ('n, 'd) run" where
  "info m s = s\<lparr>log := log s @ [(INFO, m)]\<rparr>"

definition error :: "message \<Rightarrow> ('n, 'd) run \<Rightarrow> ('n, 'd) run" where
  "error m s = s\<lparr>log := log s @ [(ERROR, m)]\<rparr>"

subsection \<open>Cleaning (lines 46 to 66)\<close>

definition with_invoice_date :: "'d \<Rightarrow> ('n, 'r) sales_row \<Rightarrow> ('n, 'd) sales_row" where
  "with_invoice_date d r =
     \<lparr>retailer = retailer r, retailer_id = retailer_id r, invoice_date = d,
      region = region r, state = state r, city = city r, product = product r,
      price_per_unit = price_per_unit r, units_sold = units_sold r,
      total_sales = total_sales r, operating_profit = operating_profit r,
      operating_margin = operating_margin r, sales_method = sales_method r\<rparr>"

text \<open>
  Line 65 selects \<^verbatim>\<open>df['invoice_date']\<close>: a \<open>KeyError\<close> where no column has
  the label; where two have it the selection is a frame, on which
  \<^verbatim>\<open>pd.to_datetime\<close> raises \<open>ValueError\<close>, as it does on a cell that it cannot
  convert.
\<close>

definition clean ::
  "(string \<Rightarrow> string) \<Rightarrow> (string \<Rightarrow> string) \<Rightarrow> ('r \<Rightarrow> 'd option) \<Rightarrow> ('n, 'r) frame
     \<Rightarrow> exn + ('n, 'd) frame" where
  "clean strip lower to_dt df =
     (let columns = clean_labels strip lower (labels df)
      in if ''invoice_date'' \<notin> set columns then Inl KeyError
         else if count_list columns ''invoice_date'' \<noteq> 1 then Inl ValueError
         else (case those (map (\<lambda>r. to_dt (invoice_date r)) (rows df)) of
                 None \<Rightarrow> Inl ValueError
               | Some ds \<Rightarrow>
                   Inr \<lparr>labels = columns, rows = map2 with_invoice_date ds (rows df)\<rparr>))"

subsection \<open>Normalisation (lines 68 to 144)\<close>

text \<open>
  The selections and merges of lines 72 to 135 in their order. Selecting an absent
  label raises \<open>KeyError\<close>; a merge on a label that two columns carry raises
  \<open>ValueError\<close>. A label of the input that a merge also brings in from a dimension
  table is suffixed by pandas (\<^verbatim>\<open>region_id_x\<close>, \<^verbatim>\<open>region_id_y\<close>), so the later
  use of that label raises \<open>KeyError\<close>. Nothing is logged or written in these lines.

  The columns of the retailer, the price and the four measures are only copied. Where
  two columns carry one of their labels, the frames of lines 72, 97 and 124 have two
  columns of one label, which the tables of this theory cannot hold: such a frame is
  not modelled, and \<open>normalize\<close> ends it with \<open>ValueError\<close> after every other
  check, so that no statement about a completed normalisation is about it.
\<close>

definition required_labels :: "string list" where
  "required_labels =
     [''retailer_id'', ''retailer'', ''region'', ''state'', ''city'', ''product'',
      ''price_per_unit'', ''sales_method'', ''units_sold'', ''total_sales'',
      ''operating_profit'', ''operating_margin'']"

definition clashing_labels :: "string list" where
  "clashing_labels =
     [''region_id'', ''state_id'', ''city_id'', ''product_id'', ''sales_method_id'']"

definition copied_labels :: "string list" where
  "copied_labels =
     [''retailer_id'', ''retailer'', ''price_per_unit'', ''units_sold'', ''total_sales'',
      ''operating_profit'', ''operating_margin'']"

definition present :: "string list \<Rightarrow> string \<Rightarrow> bool" where
  "present columns c \<longleftrightarrow> c \<in> set columns"

definition unique :: "string list \<Rightarrow> string \<Rightarrow> bool" where
  "unique columns c \<longleftrightarrow> count_list columns c = 1"

definition normalize :: "('n, 'd) frame \<Rightarrow> exn + ('n, 'd) star" where
  "normalize df =
     (let has = present (labels df); one = unique (labels df) in
      \<comment> \<open>line 72\<close>
      if \<not> (has ''retailer_id'' \<and> has ''retailer'') then Inl KeyError
      \<comment> \<open>lines 76 and 81\<close>
      else if \<not> (has ''region'' \<and> has ''state'') then Inl KeyError
      \<comment> \<open>line 82, merge on region\<close>
      else if \<not> one ''region'' then Inl ValueError
      \<comment> \<open>line 89\<close>
      else if \<not> has ''city'' then Inl KeyError
      \<comment> \<open>line 90, merge on state\<close>
      else if \<not> one ''state'' then Inl ValueError
      \<comment> \<open>lines 97 and 102\<close>
      else if \<not> (has ''product'' \<and> has ''price_per_unit'') then Inl KeyError
      else if \<not> has ''sales_method'' then Inl KeyError
      \<comment> \<open>line 113, merge on city and state_id\<close>
      else if \<not> one ''city'' then Inl ValueError
      else if has ''state_id'' then Inl KeyError
      \<comment> \<open>lines 116 and 119, merges on product and sales_method\<close>
      else if \<not> one ''product'' then Inl ValueError
      else if \<not> one ''sales_method'' then Inl ValueError
      \<comment> \<open>line 124\<close>
      else if \<not> (has ''units_sold'' \<and> has ''total_sales'' \<and> has ''operating_profit''
                 \<and> has ''operating_margin'') then Inl KeyError
      else if has ''city_id'' \<or> has ''product_id'' \<or> has ''sales_method_id''
              \<or> has ''region_id'' then Inl KeyError
      \<comment> \<open>not modelled\<close>
      else if \<not> list_all one copied_labels then Inl ValueError
      else Inr (normalization (rows df)))"

subsection \<open>Loading (lines 148 to 189)\<close>

definition load_table ::
  "(('n, 'd) table \<Rightarrow> string \<Rightarrow> dtypes \<Rightarrow> exn + ('n, 'd) table)
     \<Rightarrow> ('n, 'd) table \<Rightarrow> string \<Rightarrow> dtypes \<Rightarrow> ('n, 'd) run
     \<Rightarrow> exn option \<times> ('n, 'd) run" where
  "load_table to_sql_w dataframe table_name dtypes s =
     (let s1 = info (Loading_table table_name (len dataframe)) s
      in case to_sql_w dataframe table_name dtypes of
           Inl e \<Rightarrow> (Some e, s1)
         | Inr stored \<Rightarrow> (None, s1\<lparr>sink := (sink s1)(table_name \<mapsto> stored)\<rparr>))"

fun load_tables ::
  "(('n, 'd) table \<Rightarrow> string \<Rightarrow> dtypes \<Rightarrow> exn + ('n, 'd) table)
     \<Rightarrow> (('n, 'd) table \<times> string \<times> dtypes) list \<Rightarrow> ('n, 'd) run
     \<Rightarrow> exn option \<times> ('n, 'd) run" where
  "load_tables to_sql_w [] s = (None, s)"
| "load_tables to_sql_w ((dataframe, table_name, dtypes) # rest) s =
     (case load_table to_sql_w dataframe table_name dtypes s of
        (Some e, s1) \<Rightarrow> (Some e, s1)
      | (None, s1) \<Rightarrow> load_tables to_sql_w rest s1)"

definition fact_dtypes :: dtypes where
  "fact_dtypes =
     [(''transaction_id'', Integer), (''retailer_id'', String), (''invoice_date'', Date),
      (''city_id'', Integer), (''product_id'', Integer), (''units_sold'', Integer),
      (''total_sales'', Integer), (''operating_profit'', Integer),
      (''operating_margin'', Float), (''sales_method_id'', Integer),
      (''region_id'', Integer)]"

definition loads :: "('n, 'd) star \<Rightarrow> (('n, 'd) table \<times> string \<times> dtypes) list" where
  "loads st =
     [(Retailer (tbl_retailer st), ''retailer'',
         [(''retailer_id'', String), (''retailer_name'', String)]),
      (Region (tbl_region st), ''region'',
         [(''region_id'', Integer), (''region_name'', String)]),
      (State (tbl_state st), ''state'',
         [(''state_id'', Integer), (''state_name'', String), (''region_id'', Integer)]),
      (City (tbl_city st), ''city'',
         [(''city_id'', Integer), (''city_name'', String), (''state_id'', Integer)]),
      (Product (tbl_product st), ''product'',
         [(''product_id'', Integer), (''product_name'', String),
          (''price_per_unit'', Integer)]),
      (Sales_method (tbl_sales_method st), ''sales_method'',
         [(''sales_method_id'', Integer), (''method_name'', String)]),
      (Sales_transaction (tbl_sales_transaction st), ''sales_transaction'', fact_dtypes)]"

subsection \<open>The function (lines 26 to 197)\<close>

definition try_block ::
  "('n, 'r, 'd) world \<Rightarrow> ('n, 'd) run \<Rightarrow> exn option \<times> ('n, 'd) run" where
  "try_block w s0 =
     (let s1 = info Establishing_connection s0 in
      case create_engine w of
        Some e \<Rightarrow> (Some e, s1)
      | None \<Rightarrow>
     (let s2 = s1\<lparr>engine := True\<rparr> in
      case connect w of
        Some e \<Rightarrow> (Some e, s2)
      | None \<Rightarrow>
     (let s3 = info Reading_data (info Connection_successful s2) in
      case read_sql_table w of
        Inl e \<Rightarrow> (Some e, s3)
      | Inr df \<Rightarrow>
     (let s4 = info (Data_read (length (rows df)) (length (labels df))) s3 in
      case clean (str_strip w) (str_lower w) (to_datetime w) df of
        Inl e \<Rightarrow> (Some e, s4)
      | Inr df' \<Rightarrow>
     (let s5 = info Date_transformed s4 in
      case normalize df' of
        Inl e \<Rightarrow> (Some e, s5)
      | Inr st \<Rightarrow>
     (let s6 = info Normalization_complete s5 in
      case load_tables (to_sql w) (loads st) s6 of
        (Some e, s7) \<Rightarrow> (Some e, s7)
      | (None, s7) \<Rightarrow> (None, info All_tables_loaded s7)))))))"

text \<open>
  The two \<^verbatim>\<open>except\<close> clauses in their order, then \<^verbatim>\<open>finally\<close>. An exception that
  no clause matches would leave the function.
\<close>

definition except_clauses :: "exn \<Rightarrow> ('n, 'd) run \<Rightarrow> ('n, 'd) run" where
  "except_clauses e s =
     (if isinstance e SQLAlchemyError_class then error (Database_error e) s
      else if isinstance e Exception_class then error (Unexpected_error e) s
      else s\<lparr>propagated := Some e\<rparr>)"

definition finally_clause :: "('n, 'd) run \<Rightarrow> ('n, 'd) run" where
  "finally_clause s = (if engine s then s\<lparr>disposed := True\<rparr> else s)"

definition transform_data :: "('n, 'r, 'd) world \<Rightarrow> ('n, 'd) run" where
  "transform_data w =
     (let s0 = \<lparr>log = [], engine = False, disposed = False, sink = processed w,
                propagated = None\<rparr>
      in case try_block w s0 of
           (Some e, s) \<Rightarrow> finally_clause (except_clauses e s)
         | (None, s) \<Rightarrow> finally_clause s)"

section \<open>Example inputs\<close>

text \<open>
  Rows for the examples below: the measures and the date are the same in all of them.
  \<open>iso_date\<close> stands for \<^verbatim>\<open>pd.to_datetime\<close> in the examples: it accepts the
  strings of ten characters.
\<close>

definition sale ::
  "cell \<Rightarrow> cell \<Rightarrow> string \<Rightarrow> string \<Rightarrow> string \<Rightarrow> string \<Rightarrow> int \<Rightarrow> string
     \<Rightarrow> (int, string) sales_row" where
  "sale name ident rg st ct pr price method =
     \<lparr>retailer = name, retailer_id = ident, invoice_date = ''2020-01-01'',
      region = Some rg, state = Some st, city = Some ct, product = Some pr,
      price_per_unit = price, units_sold = 10, total_sales = 500,
      operating_profit = 100, operating_margin = 0, sales_method = Some method\<rparr>"

definition iso_date :: "string \<Rightarrow> string option" where
  "iso_date s = (if length s = 10 then Some s else None)"

text \<open>
  \<open>ascii_strip\<close> and \<open>ascii_lower\<close> stand for \<^verbatim>\<open>str.strip\<close> and
  \<^verbatim>\<open>str.lower\<close> in the examples, whose labels are ASCII: on ASCII strings they are
  those functions.
\<close>

definition is_space :: "char \<Rightarrow> bool" where
  "is_space c \<longleftrightarrow>
     c \<in> set [CHR 0x09, CHR 0x0A, CHR 0x0B, CHR 0x0C, CHR 0x0D,
              CHR 0x1C, CHR 0x1D, CHR 0x1E, CHR 0x1F, CHR 0x20]"

definition ascii_strip :: "string \<Rightarrow> string" where
  "ascii_strip s = rev (dropWhile is_space (rev (dropWhile is_space s)))"

definition lower_char :: "char \<Rightarrow> char" where
  "lower_char c =
     (case map_of (zip ''ABCDEFGHIJKLMNOPQRSTUVWXYZ'' ''abcdefghijklmnopqrstuvwxyz'') c of
        Some c' \<Rightarrow> c' | None \<Rightarrow> c)"

definition ascii_lower :: "string \<Rightarrow> string" where
  "ascii_lower s = map lower_char s"

text \<open>Two states of one name in two regions, with one city each.\<close>

definition two_springfields :: "(int, string) sales_row list" where
  "two_springfields =
     [sale (Some ''A'') (Some ''1'') ''East'' ''Springfield'' ''Shelby'' ''Shoes'' 50 ''Online'',
      sale (Some ''A'') (Some ''1'') ''West'' ''Springfield'' ''Ogden'' ''Shoes'' 50 ''Online'']"

text \<open>The scenario of the specification: three rows, two regions, two products.\<close>

definition scenario :: "(int, string) sales_row list" where
  "scenario =
     [sale (Some ''Retailer A'') (Some ''1'') ''East'' ''NY'' ''NYC'' ''Shoes'' 50 ''Online'',
      sale (Some ''Retailer A'') (Some ''1'') ''East'' ''NY'' ''NYC'' ''Hats'' 20 ''Online'',
      sale (Some ''Retailer B'') (Some ''2'') ''West'' ''CA'' ''LA'' ''Shoes'' 50 ''Outlet'']"

text \<open>One product at two prices.\<close>

definition shoes_two_prices :: "(int, string) sales_row list" where
  "shoes_two_prices =
     [sale (Some ''Retailer A'') (Some ''1'') ''East'' ''NY'' ''NYC'' ''Shoes'' 50 ''Online'',
      sale (Some ''Retailer A'') (Some ''1'') ''East'' ''NY'' ''NYC'' ''Shoes'' 55 ''Online'']"

text \<open>One retailer id under two retailer names.\<close>

definition one_id_two_names :: "(int, string) sales_row list" where
  "one_id_two_names =
     [sale (Some ''Foot Locker'') (Some ''1185732'') ''East'' ''NY'' ''NYC'' ''Shoes'' 50 ''Online'',
      sale (Some ''Walmart'') (Some ''1185732'') ''East'' ''NY'' ''NYC'' ''Shoes'' 50 ''Online'']"

text \<open>A row whose retailer id is NULL.\<close>

definition null_retailer_id :: "(int, string) sales_row list" where
  "null_retailer_id =
     [sale (Some ''Retailer A'') None ''East'' ''NY'' ''NYC'' ''Shoes'' 50 ''Online'']"

text \<open>
  A world in which the engine, the connection, the read and every write succeed, the
  destination stores every frame as it is, and the schema \<^verbatim>\<open>processed\<close> is empty
  before the run.
\<close>

definition raw_labels :: "string list" where
  "raw_labels = map fst rename_map"

definition world_of ::
  "string list \<Rightarrow> (int, string) sales_row list \<Rightarrow> (int, string, string) world" where
  "world_of ls rs =
     \<lparr>create_engine = None, connect = None,
      read_sql_table = Inr \<lparr>labels = ls, rows = rs\<rparr>,
      str_strip = ascii_strip, str_lower = ascii_lower, to_datetime = iso_date,
      to_sql = (\<lambda>dataframe name dtypes. Inr dataframe), processed = (\<lambda>name. None)\<rparr>"

text \<open>The same world with a frame that has no column of the sales method.\<close>

definition labels_without_sales_method :: "string list" where
  "labels_without_sales_method = filter (\<lambda>l. l \<noteq> ''Sales Method'') raw_labels"

text \<open>Worlds in which the table cannot be read, and in which the write of one table fails.\<close>

definition world_unreadable :: "(int, string, string) world" where
  "world_unreadable = (world_of raw_labels scenario)\<lparr>read_sql_table := Inl ValueError\<rparr>"

definition world_write_fails :: "(int, string, string) world" where
  "world_write_fails =
     (world_of raw_labels scenario)
       \<lparr>to_sql := (\<lambda>dataframe name dtypes.
                    if name = ''city'' then Inl SQLAlchemyError else Inr dataframe)\<rparr>"

text \<open>
  Rows whose units sold are text in every row, and a destination that raises on a
  table in which a cell of a column typed \<open>Integer\<close> or \<open>Float\<close> is text, and
  stores every other table as it is. The columns so typed that hold cells of the input
  are the price of the product table and the four measures of the fact table.
\<close>

datatype excel_cell = Num int | Txt string

definition text_units :: "(excel_cell, string) sales_row list" where
  "text_units =
     [\<lparr>retailer = Some ''Retailer A'', retailer_id = Some ''1'',
       invoice_date = ''2020-01-01'', region = Some ''East'', state = Some ''NY'',
       city = Some ''NYC'', product = Some ''Shoes'', price_per_unit = Num 50,
       units_sold = Txt ''ten'', total_sales = Num 500, operating_profit = Num 100,
       operating_margin = Num 0, sales_method = Some ''Online''\<rparr>,
      \<lparr>retailer = Some ''Retailer B'', retailer_id = Some ''2'',
       invoice_date = ''2020-01-02'', region = Some ''West'', state = Some ''CA'',
       city = Some ''LA'', product = Some ''Hats'', price_per_unit = Num 20,
       units_sold = Txt ''five'', total_sales = Num 100, operating_profit = Num 30,
       operating_margin = Num 0, sales_method = Some ''Outlet''\<rparr>]"

fun numeric_cells :: "('n, 'd) table \<Rightarrow> 'n list" where
  "numeric_cells (Product t) = map pr_price_per_unit t"
| "numeric_cells (Sales_transaction t) =
     map f_units_sold t @ map f_total_sales t @ map f_operating_profit t
       @ map f_operating_margin t"
| "numeric_cells t = []"

fun is_text :: "excel_cell \<Rightarrow> bool" where
  "is_text (Txt s) = True"
| "is_text (Num i) = False"

definition strict_to_sql ::
  "(excel_cell, 'd) table \<Rightarrow> string \<Rightarrow> dtypes \<Rightarrow> exn + (excel_cell, 'd) table" where
  "strict_to_sql dataframe name dtypes =
     (if list_ex is_text (numeric_cells dataframe) then Inl SQLAlchemyError
      else Inr dataframe)"

definition world_text_units :: "(excel_cell, string, string) world" where
  "world_text_units =
     \<lparr>create_engine = None, connect = None,
      read_sql_table = Inr \<lparr>labels = raw_labels, rows = text_units\<rparr>,
      str_strip = ascii_strip, str_lower = ascii_lower, to_datetime = iso_date,
      to_sql = strict_to_sql, processed = (\<lambda>name. None)\<rparr>"

text \<open>A world whose schema \<^verbatim>\<open>processed\<close> holds a region table before the run.\<close>

definition world_with_old_region :: "(int, string, string) world" where
  "world_with_old_region =
     (world_of raw_labels scenario)
       \<lparr>processed := (\<lambda>name. if name = ''region''
                              then Some (Region [\<lparr>rg_region_name = Some ''North'',
                                                   rg_region_id = 7\<rparr>])
                              else None)\<rparr>"

section \<open>Names for the statements\<close>

text \<open>The input row that a row of the merged frame comes from.\<close>

definition source_row :: "('n, 'd) fact_df_row \<Rightarrow> ('n, 'd) sales_row" where
  "source_row = (\<lambda>((((r, s), c), p), m). r)"


text \<open>The record that the \<^verbatim>\<open>except\<close> clauses log for an exception.\<close>

definition error_record :: "exn \<Rightarrow> level \<times> message" where
  "error_record e =
     (ERROR, if e = SQLAlchemyError then Database_error e else Unexpected_error e)"

text \<open>The names of the seven tables, in the order of lines 167 to 187.\<close>

definition table_names :: "string list" where
  "table_names =
     [''retailer'', ''region'', ''state'', ''city'', ''product'', ''sales_method'',
      ''sales_transaction'']"

text \<open>Whether the schema has a table of a name after a run.\<close>

definition has_table :: "('n, 'd) run \<Rightarrow> string \<Rightarrow> bool" where
  "has_table s name \<longleftrightarrow> sink s name \<noteq> None"

section \<open>Lemmas on the pandas operations and the tables\<close>

subsection \<open>drop_duplicates\<close>

lemma drop_dups_subset: "set (drop_dups key seen xs) \<subseteq> set xs"
  by (induction xs arbitrary: seen) auto

lemma drop_dups_keys: "key ` set (drop_dups key seen xs) = key ` set xs - seen"
  by (induction xs arbitrary: seen) auto

lemma drop_dups_distinct: "distinct (map key (drop_dups key seen xs))"
proof (induction xs arbitrary: seen)
  case Nil
  show ?case by simp
next
  case (Cons x xs)
  have "key x \<notin> key ` set (drop_dups key (insert (key x) seen) xs)"
    by (simp add: drop_dups_keys)
  with Cons show ?case by simp
qed

lemma drop_dups_find:
  "find (\<lambda>y. key y = a) (drop_dups key seen xs) =
     (if a \<in> seen then None else find (\<lambda>y. key y = a) xs)"
proof (induction xs arbitrary: seen)
  case Nil
  show ?case by simp
next
  case (Cons x xs)
  show ?case
  proof (cases "key x \<in> seen")
    case True
    with Cons show ?thesis by auto
  next
    case False
    with Cons show ?thesis by auto
  qed
qed

lemma set_drop_duplicates [simp]: "set (drop_duplicates xs) = set xs"
  using drop_dups_keys [of "\<lambda>x. x" "{}" xs] by (simp add: drop_duplicates_def drop_duplicates_subset_def)

lemma distinct_drop_duplicates [simp]: "distinct (drop_duplicates xs)"
  using drop_dups_distinct [of "\<lambda>x. x" "{}" xs] by (simp add: drop_duplicates_def drop_duplicates_subset_def)

lemma drop_duplicates_subset_keys: "key ` set (drop_duplicates_subset key xs) = key ` set xs"
  by (simp add: drop_duplicates_subset_def drop_dups_keys)

lemma drop_duplicates_subset_distinct: "distinct (map key (drop_duplicates_subset key xs))"
  by (simp add: drop_duplicates_subset_def drop_dups_distinct)

lemma drop_duplicates_subset_find:
  "find (\<lambda>y. key y = a) (drop_duplicates_subset key xs) = find (\<lambda>y. key y = a) xs"
  by (simp add: drop_duplicates_subset_def drop_dups_find)

subsection \<open>index_plus_1\<close>

lemma map_snd_index_plus_1 [simp]: "map snd (index_plus_1 xs) = xs"
  by (simp add: index_plus_1_def)

lemma map_fst_index_plus_1 [simp]: "map fst (index_plus_1 xs) = [1..<Suc (length xs)]"
  by (simp add: index_plus_1_def)

lemma length_index_plus_1 [simp]: "length (index_plus_1 xs) = length xs"
  by (simp add: index_plus_1_def)

lemma snd_set_index_plus_1: "snd ` set (index_plus_1 xs) = set xs"
  using map_snd_index_plus_1 [of xs] by (metis set_map)

subsection \<open>merge_left\<close>

lemma set_merge_left:
  "set (merge_left lk rk left right) =
     {(l, Some r) | l r. l \<in> set left \<and> r \<in> set right \<and> rk r = lk l}
     \<union> {(l, None) | l. l \<in> set left \<and> (\<forall>r \<in> set right. rk r \<noteq> lk l)}"
  by (auto simp: merge_left_def Let_def filter_empty_conv split: if_splits)

lemma merge_left_at_most_one:
  "\<forall>l \<in> set left. length (filter (\<lambda>r. rk r = lk l) right) \<le> 1 \<Longrightarrow>
   map fst (merge_left lk rk left right) = left"
proof (induction left)
  case Nil
  show ?case by (simp add: merge_left_def)
next
  case (Cons l left)
  then have IH: "map fst (merge_left lk rk left right) = left" by simp
  from Cons.prems have "length (filter (\<lambda>r. rk r = lk l) right) \<le> 1" by simp
  then consider "filter (\<lambda>r. rk r = lk l) right = []" | r where "filter (\<lambda>r. rk r = lk l) right = [r]"
    by (cases "filter (\<lambda>r. rk r = lk l) right") (auto simp: Suc_le_eq)
  then show ?case
  proof cases
    case 1
    with IH show ?thesis by (simp add: merge_left_def)
  next
    case 2
    with IH show ?thesis by (simp add: merge_left_def)
  qed
qed

lemma distinct_filter_le_1:
  "distinct (map rk right) \<Longrightarrow> length (filter (\<lambda>r. rk r = k) right) \<le> 1"
proof (induction right)
  case Nil
  show ?case by simp
next
  case (Cons r right)
  show ?case
  proof (cases "rk r = k")
    case True
    from Cons.prems have "rk r \<notin> rk ` set right" by simp
    with True have "\<forall>x \<in> set right. rk x \<noteq> k" by (metis imageI)
    then have "filter (\<lambda>r. rk r = k) right = []" by (simp add: filter_empty_conv)
    with True show ?thesis by simp
  next
    case False
    with Cons show ?thesis by simp
  qed
qed

lemma fst_set_merge_left: "fst ` set (merge_left lk rk left right) = set left"
proof (intro equalityI subsetI)
  fix l assume "l \<in> fst ` set (merge_left lk rk left right)"
  then show "l \<in> set left" by (auto simp: set_merge_left)
next
  fix l assume l: "l \<in> set left"
  show "l \<in> fst ` set (merge_left lk rk left right)"
  proof (cases "\<exists>r \<in> set right. rk r = lk l")
    case True
    then obtain r where "r \<in> set right" "rk r = lk l" by blast
    with l have "(l, Some r) \<in> set (merge_left lk rk left right)" by (auto simp: set_merge_left)
    then show ?thesis by force
  next
    case False
    with l have "(l, None) \<in> set (merge_left lk rk left right)" by (auto simp: set_merge_left)
    then show ?thesis by force
  qed
qed

subsection \<open>The dimension tables\<close>

lemma region_names: "map rg_region_name (dim_region df) = drop_duplicates (map region df)"
proof -
  have "rg_region_name \<circ> (\<lambda>(i, n). \<lparr>rg_region_name = n, rg_region_id = i\<rparr>) = snd"
    by (auto simp: fun_eq_iff)
  then show ?thesis by (simp add: dim_region_def)
qed

lemma region_ids: "map rg_region_id (dim_region df) = [1..<Suc (length (dim_region df))]"
proof -
  have "rg_region_id \<circ> (\<lambda>(i, n). \<lparr>rg_region_name = n, rg_region_id = i\<rparr>) = fst"
    by (auto simp: fun_eq_iff)
  then show ?thesis by (simp add: dim_region_def)
qed

lemma state_keys:
  "map (\<lambda>s. (st_state_name s, st_region_id s)) (dim_state df rt) =
     drop_duplicates (map (\<lambda>((s, r), m). (s, map_option rg_region_id m)) (df_state_prep df rt))"
proof -
  have "(\<lambda>s. (st_state_name s, st_region_id s))
          \<circ> (\<lambda>(i, (s, rid)). \<lparr>st_state_name = s, st_region_id = rid, st_state_id = i\<rparr>) = snd"
    by (auto simp: fun_eq_iff)
  then show ?thesis by (simp add: dim_state_def)
qed

lemma state_ids: "map st_state_id (dim_state df rt) = [1..<Suc (length (dim_state df rt))]"
proof -
  have "st_state_id
          \<circ> (\<lambda>(i, (s, rid)). \<lparr>st_state_name = s, st_region_id = rid, st_state_id = i\<rparr>) = fst"
    by (auto simp: fun_eq_iff)
  then show ?thesis by (simp add: dim_state_def)
qed

lemma city_keys:
  "map (\<lambda>c. (ct_city_name c, ct_state_id c)) (dim_city df st) =
     drop_duplicates (map (\<lambda>((c, s), m). (c, map_option st_state_id m)) (df_city_prep df st))"
proof -
  have "(\<lambda>c. (ct_city_name c, ct_state_id c))
          \<circ> (\<lambda>(i, (c, sid)). \<lparr>ct_city_name = c, ct_state_id = sid, ct_city_id = i\<rparr>) = snd"
    by (auto simp: fun_eq_iff)
  then show ?thesis by (simp add: dim_city_def)
qed

lemma city_ids: "map ct_city_id (dim_city df st) = [1..<Suc (length (dim_city df st))]"
proof -
  have "ct_city_id
          \<circ> (\<lambda>(i, (c, sid)). \<lparr>ct_city_name = c, ct_state_id = sid, ct_city_id = i\<rparr>) = fst"
    by (auto simp: fun_eq_iff)
  then show ?thesis by (simp add: dim_city_def)
qed

lemma product_rows:
  "map (\<lambda>p. (pr_product_name p, pr_price_per_unit p)) (dim_product (df :: ('n, 'd) sales_row list)) =
     drop_duplicates_subset fst (map (\<lambda>r. (product r, price_per_unit r)) df)"
proof -
  have "(\<lambda>p. (pr_product_name p, pr_price_per_unit p))
          \<circ> (\<lambda>(i, (p, price)). \<lparr>pr_product_name = p, pr_price_per_unit = (price :: 'n), pr_product_id = i\<rparr>)
        = snd"
    by (auto simp: fun_eq_iff)
  then show ?thesis by (simp add: dim_product_def)
qed

lemma product_ids: "map pr_product_id (dim_product (df :: ('n, 'd) sales_row list)) = [1..<Suc (length (dim_product df))]"
proof -
  have "pr_product_id
          \<circ> (\<lambda>(i, (p, price)). \<lparr>pr_product_name = p, pr_price_per_unit = (price :: 'n), pr_product_id = i\<rparr>)
        = fst"
    by (auto simp: fun_eq_iff)
  then show ?thesis by (simp add: dim_product_def)
qed

lemma method_names:
  "map sm_method_name (dim_sales_method df) = drop_duplicates (map sales_method df)"
proof -
  have "sm_method_name \<circ> (\<lambda>(i, n). \<lparr>sm_method_name = n, sm_sales_method_id = i\<rparr>) = snd"
    by (auto simp: fun_eq_iff)
  then show ?thesis by (simp add: dim_sales_method_def)
qed

lemma method_ids:
  "map sm_sales_method_id (dim_sales_method df) = [1..<Suc (length (dim_sales_method df))]"
proof -
  have "sm_sales_method_id \<circ> (\<lambda>(i, n). \<lparr>sm_method_name = n, sm_sales_method_id = i\<rparr>) = fst"
    by (auto simp: fun_eq_iff)
  then show ?thesis by (simp add: dim_sales_method_def)
qed

lemma retailer_rows:
  "map (\<lambda>t. (dr_retailer_id t, dr_retailer_name t)) (dim_retailer df) =
     drop_duplicates (map (\<lambda>r. (retailer_id r, retailer r)) df)"
proof -
  have "(\<lambda>t. (dr_retailer_id t, dr_retailer_name t))
          \<circ> (\<lambda>(i, n). \<lparr>dr_retailer_id = i, dr_retailer_name = n\<rparr>) = (\<lambda>x. x)"
    by (auto simp: fun_eq_iff)
  then show ?thesis by (simp add: dim_retailer_def)
qed

text \<open>Distinct natural keys.\<close>

lemma distinct_region_names: "distinct (map rg_region_name (dim_region df))"
  by (simp add: region_names)

lemma distinct_city_keys: "distinct (map (\<lambda>c. (ct_city_name c, ct_state_id c)) (dim_city df st))"
  by (simp add: city_keys)

lemma distinct_state_keys: "distinct (map (\<lambda>s. (st_state_name s, st_region_id s)) (dim_state df rt))"
  by (simp add: state_keys)

lemma distinct_product_names: "distinct (map pr_product_name (dim_product df))"
proof -
  have "map pr_product_name (dim_product df)
          = map fst (map (\<lambda>p. (pr_product_name p, pr_price_per_unit p)) (dim_product df))"
    by (simp add: comp_def)
  then show ?thesis by (simp only: product_rows drop_duplicates_subset_distinct)
qed

lemma distinct_method_names: "distinct (map sm_method_name (dim_sales_method df))"
  by (simp add: method_names)

lemma source_row_fst: "source_row x = fst (fst (fst (fst x)))"
  by (simp add: source_row_def split: prod.splits)

lemma fact_df_in_order:
  assumes st: "\<forall>r \<in> set df. length (filter (\<lambda>s. st_state_name s = state r) st) \<le> 1"
    and ct: "distinct (map (\<lambda>c. (ct_city_name c, ct_state_id c)) ct)"
    and pt: "distinct (map pr_product_name pt)"
    and mt: "distinct (map sm_method_name mt)"
  shows "map source_row (fact_df df st ct pt mt) = df"
proof -
  define m1 where "m1 = merge_left state st_state_name df st"
  define m2 where "m2 = merge_left (\<lambda>(r, s). (city r, map_option st_state_id s))
                 (\<lambda>c. (ct_city_name c, ct_state_id c)) m1 ct"
  define m3 where "m3 = merge_left (\<lambda>((r, s), c). product r) pr_product_name m2 pt"
  define m4 where "m4 = merge_left (\<lambda>(((r, s), c), p). sales_method r) sm_method_name m3 mt"
  have 1: "map fst m1 = df"
    unfolding m1_def using st by (rule merge_left_at_most_one)
  have 2: "map fst m2 = m1"
    unfolding m2_def by (rule merge_left_at_most_one, intro ballI, rule distinct_filter_le_1 [OF ct])
  have 3: "map fst m3 = m2"
    unfolding m3_def by (rule merge_left_at_most_one, intro ballI, rule distinct_filter_le_1 [OF pt])
  have 4: "map fst m4 = m3"
    unfolding m4_def by (rule merge_left_at_most_one, intro ballI, rule distinct_filter_le_1 [OF mt])
  have "map source_row m4 = map fst (map fst (map fst (map fst m4)))"
    by (simp add: source_row_fst comp_def)
  also have "\<dots> = df" by (simp only: 1 2 3 4)
  finally have "map source_row m4 = df" .
  moreover have "fact_df df st ct pt mt = m4"
    by (simp add: fact_df_def m1_def m2_def m3_def m4_def)
  ultimately show ?thesis by simp
qed

lemma fact_row_of_passthrough:
  "f_retailer_id (fact_row_of (i, x)) = retailer_id (source_row x)"
  "f_invoice_date (fact_row_of (i, x)) = invoice_date (source_row x)"
  "f_units_sold (fact_row_of (i, x)) = units_sold (source_row x)"
  "f_total_sales (fact_row_of (i, x)) = total_sales (source_row x)"
  "f_operating_profit (fact_row_of (i, x)) = operating_profit (source_row x)"
  "f_operating_margin (fact_row_of (i, x)) = operating_margin (source_row x)"
  "transaction_id (fact_row_of (i, x)) = i"
  by (simp_all add: fact_row_of_def source_row_def split: prod.splits)

lemma map_enumerate_snd:
  "(\<And>i x. f (i, x) = g x) \<Longrightarrow> map f (enumerate n xs) = map g xs"
  by (induction xs arbitrary: n) simp_all

lemma map_enumerate_fst:
  "(\<And>i x. f (i, x) = i) \<Longrightarrow> map f (enumerate n xs) = [n..<n + length xs]"
  by (induction xs arbitrary: n) (simp_all add: upt_rec)

lemma map_fact_table:
  assumes "\<And>i x. g (fact_row_of (i, x)) = h (source_row x)"
  shows "map g (fact_table df st ct pt mt) = map h (map source_row (fact_df df st ct pt mt))"
proof -
  have "map (\<lambda>p. g (fact_row_of p)) (enumerate 1 (fact_df df st ct pt mt))
          = map (\<lambda>x. h (source_row x)) (fact_df df st ct pt mt)"
    by (rule map_enumerate_snd) (rule assms)
  then show ?thesis by (simp add: fact_table_def index_plus_1_def comp_def)
qed

lemma transaction_ids:
  "map transaction_id (fact_table df st ct pt mt)
     = [1..<Suc (length (fact_table df st ct pt mt))]"
proof -
  have "map (\<lambda>p. transaction_id (fact_row_of p)) (enumerate 1 (fact_df df st ct pt mt))
          = [1..<1 + length (fact_df df st ct pt mt)]"
    by (rule map_enumerate_fst) (rule fact_row_of_passthrough)
  then show ?thesis by (simp add: fact_table_def index_plus_1_def comp_def)
qed

lemma normalization_tables:
  "tbl_retailer (normalization df) = dim_retailer df"
  "tbl_region (normalization df) = dim_region df"
  "tbl_state (normalization df) = dim_state df (dim_region df)"
  "tbl_city (normalization df) = dim_city df (dim_state df (dim_region df))"
  "tbl_product (normalization df) = dim_product df"
  "tbl_sales_method (normalization df) = dim_sales_method df"
  "tbl_sales_transaction (normalization df) =
     fact_table df (dim_state df (dim_region df)) (dim_city df (dim_state df (dim_region df)))
       (dim_product df) (dim_sales_method df)"
  by (simp_all add: normalization_def Let_def)

lemma region_name_set: "rg_region_name ` set (dim_region df) = region ` set df"
proof -
  have "set (map rg_region_name (dim_region df)) = set (map region df)"
    by (simp only: region_names set_drop_duplicates)
  then show ?thesis by simp
qed

lemma product_name_set: "pr_product_name ` set (dim_product df) = product ` set df"
proof -
  have "fst ` set (map (\<lambda>p. (pr_product_name p, pr_price_per_unit p)) (dim_product df))
          = fst ` set (map (\<lambda>r. (product r, price_per_unit r)) df)"
    by (simp only: product_rows drop_duplicates_subset_keys)
  then show ?thesis by (simp add: image_image)
qed

lemma method_name_set: "sm_method_name ` set (dim_sales_method df) = sales_method ` set df"
proof -
  have "set (map sm_method_name (dim_sales_method df)) = set (map sales_method df)"
    by (simp only: method_names set_drop_duplicates)
  then show ?thesis by simp
qed

lemma retailer_pair_set:
  "(\<lambda>t. (dr_retailer_id t, dr_retailer_name t)) ` set (dim_retailer df)
     = (\<lambda>r. (retailer_id r, retailer r)) ` set df"
proof -
  have "set (map (\<lambda>t. (dr_retailer_id t, dr_retailer_name t)) (dim_retailer df))
          = set (map (\<lambda>r. (retailer_id r, retailer r)) df)"
    by (simp only: retailer_rows set_drop_duplicates)
  then show ?thesis by simp
qed

lemma state_key_set:
  "(\<lambda>s. (st_state_name s, st_region_id s)) ` set (dim_state df rt)
     = (\<lambda>((s, r), m). (s, map_option rg_region_id m)) ` set (df_state_prep df rt)"
proof -
  have "set (map (\<lambda>s. (st_state_name s, st_region_id s)) (dim_state df rt))
          = set (map (\<lambda>((s, r), m). (s, map_option rg_region_id m)) (df_state_prep df rt))"
    by (simp only: state_keys set_drop_duplicates)
  then show ?thesis by simp
qed

lemma city_key_set:
  "(\<lambda>c. (ct_city_name c, ct_state_id c)) ` set (dim_city df st)
     = (\<lambda>((c, s), m). (c, map_option st_state_id m)) ` set (df_city_prep df st)"
proof -
  have "set (map (\<lambda>c. (ct_city_name c, ct_state_id c)) (dim_city df st))
          = set (map (\<lambda>((c, s), m). (c, map_option st_state_id m)) (df_city_prep df st))"
    by (simp only: city_keys set_drop_duplicates)
  then show ?thesis by simp
qed

text \<open>Every input row finds its state name in the state table.\<close>

lemma state_lookup_total:
  assumes "r \<in> set df"
  shows "\<exists>s \<in> set (dim_state df rt). st_state_name s = state r"
proof -
  from assms have "(state r, region r) \<in> set (drop_duplicates (map (\<lambda>r. (state r, region r)) df))"
    by auto
  then have "(state r, region r) \<in> fst ` set (df_state_prep df rt)"
    by (simp only: df_state_prep_def fst_set_merge_left)
  then obtain m where "((state r, region r), m) \<in> set (df_state_prep df rt)" by auto
  then have "(state r, map_option rg_region_id m)
               \<in> (\<lambda>((s, r), m). (s, map_option rg_region_id m)) ` set (df_state_prep df rt)"
    by force
  then have "(state r, map_option rg_region_id m)
               \<in> (\<lambda>s. (st_state_name s, st_region_id s)) ` set (dim_state df rt)"
    by (simp only: state_key_set)
  then show ?thesis by auto
qed

text \<open>Every state row carries the key of a region row.\<close>

lemma state_region_resolved:
  assumes "s \<in> set (dim_state df (dim_region df))"
  shows "\<exists>g \<in> set (dim_region df). st_region_id s = Some (rg_region_id g)"
proof -
  from assms have "(st_state_name s, st_region_id s)
      \<in> (\<lambda>s. (st_state_name s, st_region_id s)) ` set (dim_state df (dim_region df))"
    by (rule imageI)
  then have "(st_state_name s, st_region_id s)
      \<in> (\<lambda>((s, r), m). (s, map_option rg_region_id m)) ` set (df_state_prep df (dim_region df))"
    by (simp only: state_key_set)
  then obtain n rn m where in_prep: "((n, rn), m) \<in> set (df_state_prep df (dim_region df))"
    and rid: "st_region_id s = map_option rg_region_id m"
    by auto
  from in_prep have "(n, rn) \<in> set (drop_duplicates (map (\<lambda>r. (state r, region r)) df))"
    by (auto simp: df_state_prep_def set_merge_left)
  then have "rn \<in> region ` set df" by auto
  then have "rn \<in> rg_region_name ` set (dim_region df)" by (simp only: region_name_set)
  then obtain g0 where "g0 \<in> set (dim_region df)" "rg_region_name g0 = rn" by auto
  with in_prep obtain g where "m = Some g" "g \<in> set (dim_region df)"
    by (auto simp: df_state_prep_def set_merge_left)
  with rid show ?thesis by auto
qed

text \<open>Every pair of a city and a state row of its state name is a key of the city table.\<close>

lemma city_lookup_total:
  assumes "r \<in> set df" and "s \<in> set st" and "st_state_name s = state r"
  shows "\<exists>c \<in> set (dim_city df st). ct_city_name c = city r \<and> ct_state_id c = Some (st_state_id s)"
proof -
  from assms(1) have "(city r, state r) \<in> set (drop_duplicates (map (\<lambda>r. (city r, state r)) df))"
    by auto
  with assms(2,3) have "((city r, state r), Some s) \<in> set (df_city_prep df st)"
    by (auto simp: df_city_prep_def set_merge_left)
  then have "(city r, Some (st_state_id s))
               \<in> (\<lambda>((c, s), m). (c, map_option st_state_id m)) ` set (df_city_prep df st)"
    by force
  then have "(city r, Some (st_state_id s))
               \<in> (\<lambda>c. (ct_city_name c, ct_state_id c)) ` set (dim_city df st)"
    by (simp only: city_key_set)
  then show ?thesis by auto
qed

text \<open>The rows of the merged frame: every merge found a row.\<close>

lemma fact_df_resolved:
  assumes "x \<in> set (fact_df df (dim_state df rt) (dim_city df (dim_state df rt))
                        (dim_product df) (dim_sales_method df))"
  shows "\<exists>r s c p m. x = ((((r, Some s), Some c), Some p), Some m)
           \<and> r \<in> set df
           \<and> s \<in> set (dim_state df rt) \<and> st_state_name s = state r
           \<and> c \<in> set (dim_city df (dim_state df rt))
           \<and> ct_city_name c = city r \<and> ct_state_id c = Some (st_state_id s)
           \<and> p \<in> set (dim_product df) \<and> pr_product_name p = product r
           \<and> m \<in> set (dim_sales_method df) \<and> sm_method_name m = sales_method r"
proof -
  let ?st = "dim_state df rt"
  let ?ct = "dim_city df ?st"
  define m1 where "m1 = merge_left state st_state_name df ?st"
  define m2 where "m2 = merge_left (\<lambda>(r, s). (city r, map_option st_state_id s))
                 (\<lambda>c. (ct_city_name c, ct_state_id c)) m1 ?ct"
  define m3 where "m3 = merge_left (\<lambda>((r, s), c). product r) pr_product_name m2 (dim_product df)"
  define m4 where "m4 = merge_left (\<lambda>(((r, s), c), p). sales_method r) sm_method_name m3
                          (dim_sales_method df)"
  have "fact_df df ?st ?ct (dim_product df) (dim_sales_method df) = m4"
    by (simp add: fact_df_def m1_def m2_def m3_def m4_def)
  with assms have x4: "x \<in> set m4" by simp
  obtain x3 mo where x: "x = (x3, mo)" by (cases x)
  obtain x2 po where x3: "x3 = (x2, po)" by (cases x3)
  obtain x1 co where x2: "x2 = (x1, co)" by (cases x2)
  obtain r so where x1: "x1 = (r, so)" by (cases x1)
  from x4 x have in3: "x3 \<in> set m3" by (auto simp: m4_def set_merge_left)
  with x3 have in2: "x2 \<in> set m2" by (auto simp: m3_def set_merge_left)
  with x2 have in1: "x1 \<in> set m1" by (auto simp: m2_def set_merge_left)
  with x1 have r: "r \<in> set df" by (auto simp: m1_def set_merge_left)
  \<comment> \<open>the state\<close>
  from state_lookup_total [OF r] have "\<exists>s \<in> set ?st. st_state_name s = state r" .
  with in1 x1 obtain s where s: "so = Some s" "s \<in> set ?st" "st_state_name s = state r"
    by (auto simp: m1_def set_merge_left)
  \<comment> \<open>the city\<close>
  from city_lookup_total [OF r s(2,3)]
  have "\<exists>c \<in> set ?ct. (ct_city_name c, ct_state_id c) = (city r, Some (st_state_id s))" by auto
  with in2 x2 x1 s(1) obtain c where c: "co = Some c" "c \<in> set ?ct"
      "ct_city_name c = city r" "ct_state_id c = Some (st_state_id s)"
    by (auto simp: m2_def set_merge_left)
  \<comment> \<open>the product\<close>
  from r have "product r \<in> pr_product_name ` set (dim_product df)"
    by (simp add: product_name_set)
  then have "\<exists>p \<in> set (dim_product df). pr_product_name p = product r" by auto
  with in3 x3 x2 x1 obtain p where p: "po = Some p" "p \<in> set (dim_product df)"
      "pr_product_name p = product r"
    by (auto simp: m3_def set_merge_left)
  \<comment> \<open>the sales method\<close>
  from r have "sales_method r \<in> sm_method_name ` set (dim_sales_method df)"
    by (simp add: method_name_set)
  then have "\<exists>m \<in> set (dim_sales_method df). sm_method_name m = sales_method r" by auto
  with x4 x x3 x2 x1 obtain m where m: "mo = Some m" "m \<in> set (dim_sales_method df)"
      "sm_method_name m = sales_method r"
    by (auto simp: m4_def set_merge_left)
  from x x3 x2 x1 s c p m r show ?thesis by blast
qed

subsection \<open>Cleaning and the labels\<close>

lemma those_map_None: "those (map f xs) = None \<longleftrightarrow> (\<exists>x \<in> set xs. f x = None)"
  by (induction xs) (auto split: option.splits)

lemma those_map_length: "those (map f xs) = Some ys \<Longrightarrow> length ys = length xs"
  by (induction xs arbitrary: ys) (auto split: option.splits)

lemma clean_Inl:
  "clean strip lower to_dt raw = Inl e \<Longrightarrow> e = KeyError \<or> e = ValueError"
  by (auto simp: clean_def Let_def split: if_splits option.splits)

lemma normalize_Inl: "normalize df = Inl e \<Longrightarrow> e = KeyError \<or> e = ValueError"
  by (simp add: normalize_def Let_def split: if_splits)

lemma normalize_Inr: "normalize df = Inr st \<Longrightarrow> st = normalization (rows df)"
  by (simp add: normalize_def Let_def split: if_splits)

lemma normalize_Inr_labels:
  "normalize df = Inr st \<Longrightarrow> c \<in> set required_labels \<Longrightarrow> c \<in> set (labels df)"
  by (simp add: normalize_def Let_def present_def required_labels_def split: if_splits) auto

lemma clean_labels_of:
  "clean strip lower to_dt raw = Inr df \<Longrightarrow> labels df = clean_labels strip lower (labels raw)"
  by (auto simp: clean_def Let_def split: if_splits option.splits)

lemma missing_or_bad_date:
  assumes "(\<exists>c \<in> set (''invoice_date'' # required_labels).
              c \<notin> set (clean_labels strip lower (labels raw)))
           \<or> (\<exists>r \<in> set (rows raw). to_dt (invoice_date r) = None)"
  shows "(\<exists>e. clean strip lower to_dt raw = Inl e)
         \<or> (\<exists>df e. clean strip lower to_dt raw = Inr df \<and> normalize df = Inl e)"
proof (cases "clean strip lower to_dt raw")
  case (Inl e)
  then show ?thesis by simp
next
  case (Inr df)
  then have inv: "''invoice_date'' \<in> set (clean_labels strip lower (labels raw))"
    and dates: "those (map (\<lambda>r. to_dt (invoice_date r)) (rows raw)) \<noteq> None"
    by (auto simp: clean_def Let_def split: if_splits option.splits)
  from dates have "\<not> (\<exists>r \<in> set (rows raw). to_dt (invoice_date r) = None)"
    by (simp add: those_map_None)
  with assms inv obtain c where c: "c \<in> set required_labels"
    "c \<notin> set (clean_labels strip lower (labels raw))"
    by auto
  have "\<exists>e. normalize df = Inl e"
  proof (cases "normalize df")
    case (Inl e)
    then show ?thesis by simp
  next
    case (Inr st)
    from normalize_Inr_labels [OF Inr c(1)] c(2) clean_labels_of [OF \<open>clean strip lower to_dt raw = Inr df\<close>]
    show ?thesis by simp
  qed
  with Inr show ?thesis by simp
qed

subsection \<open>The run, stage by stage\<close>

lemma error_record_cases:
  "error_record e = (ERROR, Database_error e) \<or> error_record e = (ERROR, Unexpected_error e)"
  by (simp add: error_record_def)

lemma except_clauses_logs: "except_clauses e s = s\<lparr>log := log s @ [error_record e]\<rparr>"
  by (cases e) (simp_all add: except_clauses_def error_def error_record_def)

lemma run_create_engine_raises:
  assumes "create_engine w = Some e"
  shows "transform_data w =
           \<lparr>log = [(INFO, Establishing_connection), error_record e],
            engine = False, disposed = False, sink = processed w, propagated = None\<rparr>"
  using assms
  by (simp add: transform_data_def try_block_def info_def except_clauses_logs
        finally_clause_def)

lemma run_connect_raises:
  assumes "create_engine w = None" and "connect w = Some e"
  shows "transform_data w =
           \<lparr>log = [(INFO, Establishing_connection), error_record e],
            engine = True, disposed = True, sink = processed w, propagated = None\<rparr>"
  using assms
  by (simp add: transform_data_def try_block_def info_def except_clauses_logs
        finally_clause_def)

lemma run_read_raises:
  assumes "create_engine w = None" and "connect w = None" and "read_sql_table w = Inl e"
  shows "transform_data w =
           \<lparr>log = [(INFO, Establishing_connection), (INFO, Connection_successful),
                   (INFO, Reading_data), error_record e],
            engine = True, disposed = True, sink = processed w, propagated = None\<rparr>"
  using assms
  by (simp add: transform_data_def try_block_def info_def except_clauses_logs
        finally_clause_def)

lemma run_clean_raises:
  assumes "create_engine w = None" and "connect w = None" and "read_sql_table w = Inr raw"
    and "clean (str_strip w) (str_lower w) (to_datetime w) raw = Inl e"
  shows "transform_data w =
           \<lparr>log = [(INFO, Establishing_connection), (INFO, Connection_successful),
                   (INFO, Reading_data),
                   (INFO, Data_read (length (rows raw)) (length (labels raw))),
                   error_record e],
            engine = True, disposed = True, sink = processed w, propagated = None\<rparr>"
  using assms
  by (simp add: transform_data_def try_block_def info_def except_clauses_logs
        finally_clause_def)

lemma run_normalize_raises:
  assumes "create_engine w = None" and "connect w = None" and "read_sql_table w = Inr raw"
    and "clean (str_strip w) (str_lower w) (to_datetime w) raw = Inr df" and "normalize df = Inl e"
  shows "transform_data w =
           \<lparr>log = [(INFO, Establishing_connection), (INFO, Connection_successful),
                   (INFO, Reading_data),
                   (INFO, Data_read (length (rows raw)) (length (labels raw))),
                   (INFO, Date_transformed), error_record e],
            engine = True, disposed = True, sink = processed w, propagated = None\<rparr>"
  using assms
  by (simp add: transform_data_def try_block_def info_def except_clauses_logs
        finally_clause_def)

lemma run_loads:
  assumes "create_engine w = None" and "connect w = None" and "read_sql_table w = Inr raw"
    and "clean (str_strip w) (str_lower w) (to_datetime w) raw = Inr df" and "normalize df = Inr st"
  shows "transform_data w =
           (case load_tables (to_sql w) (loads st)
                   \<lparr>log = [(INFO, Establishing_connection), (INFO, Connection_successful),
                           (INFO, Reading_data),
                           (INFO, Data_read (length (rows raw)) (length (labels raw))),
                           (INFO, Date_transformed), (INFO, Normalization_complete)],
                    engine = True, disposed = False, sink = processed w, propagated = None\<rparr> of
              (Some e, s) \<Rightarrow> finally_clause (except_clauses e s)
            | (None, s) \<Rightarrow> finally_clause (info All_tables_loaded s))"
  using assms
  by (simp add: transform_data_def try_block_def info_def split: prod.splits option.splits)

lemma run_succeeds:
  assumes "create_engine w = None" and "connect w = None" and "read_sql_table w = Inr raw"
    and "clean (str_strip w) (str_lower w) (to_datetime w) raw = Inr df" and "normalize df = Inr st"
    and "\<And>dataframe name dtypes. to_sql w dataframe name dtypes = Inr dataframe"
  shows "transform_data w =
           \<lparr>log = map (Pair INFO)
                   [Establishing_connection, Connection_successful, Reading_data,
                    Data_read (length (rows raw)) (length (labels raw)),
                    Date_transformed, Normalization_complete,
                    Loading_table ''retailer'' (length (tbl_retailer st)),
                    Loading_table ''region'' (length (tbl_region st)),
                    Loading_table ''state'' (length (tbl_state st)),
                    Loading_table ''city'' (length (tbl_city st)),
                    Loading_table ''product'' (length (tbl_product st)),
                    Loading_table ''sales_method'' (length (tbl_sales_method st)),
                    Loading_table ''sales_transaction'' (length (tbl_sales_transaction st)),
                    All_tables_loaded],
            engine = True, disposed = True,
            sink = (processed w)
                     (''retailer'' \<mapsto> Retailer (tbl_retailer st),
                      ''region'' \<mapsto> Region (tbl_region st),
                      ''state'' \<mapsto> State (tbl_state st),
                      ''city'' \<mapsto> City (tbl_city st),
                      ''product'' \<mapsto> Product (tbl_product st),
                      ''sales_method'' \<mapsto> Sales_method (tbl_sales_method st),
                      ''sales_transaction'' \<mapsto> Sales_transaction (tbl_sales_transaction st)),
            propagated = None\<rparr>"
  by (simp add: run_loads [OF assms(1-5)] assms(6) loads_def load_table_def info_def
        finally_clause_def)

text \<open>Loading: what a failing write leaves.\<close>

lemma load_tables_fields:
  "engine (snd (load_tables ws ts s)) = engine s
   \<and> disposed (snd (load_tables ws ts s)) = disposed s
   \<and> propagated (snd (load_tables ws ts s)) = propagated s"
proof (induction ts arbitrary: s)
  case Nil
  show ?case by simp
next
  case (Cons a ts)
  obtain t n d where a: "a = (t, n, d)" by (cases a)
  show ?case
  proof (cases "ws t n d")
    case (Inr t')
    with Cons [of "(info (Loading_table n (len t)) s)\<lparr>sink := (sink s)(n \<mapsto> t')\<rparr>"] show ?thesis
      by (simp add: a load_table_def info_def)
  next
    case (Inl e)
    then show ?thesis by (simp add: a load_table_def info_def)
  qed
qed

lemma load_tables_raises:
  assumes "(t, n, d) \<in> set ts" and "ws t n d = Inl e"
  shows "\<exists>e' t' n' d'. ws t' n' d' = Inl e' \<and> fst (load_tables ws ts s) = Some e'"
  using assms(1)
proof (induction ts arbitrary: s)
  case Nil
  then show ?case by simp
next
  case (Cons a ts)
  obtain t1 n1 d1 where a: "a = (t1, n1, d1)" by (cases a)
  show ?case
  proof (cases "ws t1 n1 d1")
    case (Inl e')
    then have "fst (load_tables ws (a # ts) s) = Some e'"
      by (simp add: a load_table_def)
    with Inl show ?thesis by blast
  next
    case (Inr t1')
    with Cons.prems a assms(2) have "(t, n, d) \<in> set ts" by auto
    from Cons.IH [OF this]
    obtain e' t' n' d' where "ws t' n' d' = Inl e'"
      "fst (load_tables ws ts ((info (Loading_table n1 (len t1)) s)\<lparr>sink := (sink s)(n1 \<mapsto> t1')\<rparr>)) = Some e'"
      by blast
    then show ?thesis
      by (auto simp: a Inr load_table_def info_def)
  qed
qed

text \<open>
  Where the writes of the first tables succeed and the next one raises, those first
  tables are in the schema, the others as they were.
\<close>

lemma load_tables_stops:
  assumes "\<And>t n d. (t, n, d) \<in> set before \<Longrightarrow> ws t n d = Inr (stored t n d)"
    and "ws t0 n0 d0 = Inl e"
  shows "load_tables ws (before @ (t0, n0, d0) # after) s =
           (Some e,
            s\<lparr>log := log s @ map (\<lambda>(t, n, d). (INFO, Loading_table n (len t)))
                               (before @ [(t0, n0, d0)]),
               sink := sink s ++ map_of (rev (map (\<lambda>(t, n, d). (n, stored t n d)) before))\<rparr>)"
  using assms(1)
proof (induction before arbitrary: s)
  case Nil
  show ?case by (simp add: load_table_def info_def assms(2))
next
  case (Cons a before)
  obtain t n d where a: "a = (t, n, d)" by (cases a)
  from Cons.prems a have w: "ws t n d = Inr (stored t n d)" by simp
  have "load_tables ws ((a # before) @ (t0, n0, d0) # after) s
          = load_tables ws (before @ (t0, n0, d0) # after)
              ((info (Loading_table n (len t)) s)\<lparr>sink := (sink s)(n \<mapsto> stored t n d)\<rparr>)"
    by (simp add: a w load_table_def info_def)
  also have "\<dots> = (Some e,
            ((info (Loading_table n (len t)) s)\<lparr>sink := (sink s)(n \<mapsto> stored t n d)\<rparr>)
              \<lparr>log := log ((info (Loading_table n (len t)) s)\<lparr>sink := (sink s)(n \<mapsto> stored t n d)\<rparr>)
                        @ map (\<lambda>(t, n, d). (INFO, Loading_table n (len t)))
                               (before @ [(t0, n0, d0)]),
               sink := sink ((info (Loading_table n (len t)) s)\<lparr>sink := (sink s)(n \<mapsto> stored t n d)\<rparr>)
                         ++ map_of (rev (map (\<lambda>(t, n, d). (n, stored t n d)) before))\<rparr>)"
    by (rule Cons.IH) (simp add: Cons.prems)
  also have "\<dots> = (Some e,
            s\<lparr>log := log s @ map (\<lambda>(t, n, d). (INFO, Loading_table n (len t)))
                               ((a # before) @ [(t0, n0, d0)]),
               sink := sink s ++ map_of (rev (map (\<lambda>(t, n, d). (n, stored t n d)) (a # before)))\<rparr>)"
  proof -
    have "(sink s)(n \<mapsto> stored t n d) ++ map_of (rev (map (\<lambda>(t, n, d). (n, stored t n d)) before))
            = sink s ++ map_of (rev (map (\<lambda>(t, n, d). (n, stored t n d)) (a # before)))"
      by (rule ext) (simp add: a map_add_def split: option.splits)
    then show ?thesis by (simp add: a info_def)
  qed
  finally show ?case .
qed

lemma load_tables_levels:
  "fst ` set (log (snd (load_tables ws ts s))) \<subseteq> insert INFO (fst ` set (log s))"
proof (induction ts arbitrary: s)
  case Nil
  show ?case by auto
next
  case (Cons a ts)
  obtain t n d where a: "a = (t, n, d)" by (cases a)
  show ?case
  proof (cases "ws t n d")
    case (Inr t')
    with Cons [of "(info (Loading_table n (len t)) s)\<lparr>sink := (sink s)(n \<mapsto> t')\<rparr>"] show ?thesis
      by (auto simp: a load_table_def info_def)
  next
    case (Inl e)
    then show ?thesis by (auto simp: a load_table_def info_def)
  qed
qed

lemma run_fields:
  "propagated (transform_data (w :: ('n, 'r, 'd) world)) = None
   \<and> disposed (transform_data w) = (create_engine w = None)
   \<and> engine (transform_data w) = (create_engine w = None)"
proof (cases "create_engine w")
  case (Some e)
  then show ?thesis by (simp add: run_create_engine_raises)
next
  case ce: None
  show ?thesis
  proof (cases "connect w")
    case (Some e)
    with ce show ?thesis by (simp add: run_connect_raises)
  next
    case cn: None
    show ?thesis
    proof (cases "read_sql_table w")
      case (Inl e)
      with ce cn show ?thesis by (simp add: run_read_raises)
    next
      case rd: (Inr raw)
      show ?thesis
      proof (cases "clean (str_strip w) (str_lower w) (to_datetime w) raw")
        case (Inl e)
        with ce cn rd show ?thesis by (simp add: run_clean_raises)
      next
        case cl: (Inr df)
        show ?thesis
        proof (cases "normalize df")
          case (Inl e)
          with ce cn rd cl show ?thesis by (simp add: run_normalize_raises)
        next
          case nm: (Inr st)
          define s6 :: "('n, 'd) run" where "s6 =
             \<lparr>log = [(INFO, Establishing_connection), (INFO, Connection_successful),
                           (INFO, Reading_data),
                           (INFO, Data_read (length (rows raw)) (length (labels raw))),
                           (INFO, Date_transformed), (INFO, Normalization_complete)],
                    engine = True, disposed = False, sink = processed w, propagated = None\<rparr>"
          obtain r s where L: "load_tables (to_sql w) (loads st) s6 = (r, s)"
            by (cases "load_tables (to_sql w) (loads st) s6")
          from load_tables_fields [of "to_sql w" "loads st" s6] L
          have f: "engine s" "\<not> disposed s" "propagated s = None"
            by (simp_all add: s6_def)
          have "transform_data w =
                  (case r of Some e \<Rightarrow> finally_clause (except_clauses e s)
                   | None \<Rightarrow> finally_clause (info All_tables_loaded s))"
            using L by (simp add: run_loads [OF ce cn rd cl nm] s6_def split: option.splits)
          with f ce show ?thesis
            by (cases r) (simp_all add: finally_clause_def except_clauses_logs info_def)
        qed
      qed
    qed
  qed
qed

lemma run_write_raises:
  assumes "create_engine (w :: ('n, 'r, 'd) world) = None" and "connect w = None"
    and "read_sql_table w = Inr raw"
    and "clean (str_strip w) (str_lower w) (to_datetime w) raw = Inr df"
    and "normalize df = Inr st"
    and "(t, n, d) \<in> set (loads st)" and "to_sql w t n d = Inl e"
  shows "\<exists>e' t' n' d'. to_sql w t' n' d' = Inl e'
           \<and> last (log (transform_data w)) = error_record e'"
proof -
  define s6 :: "('n, 'd) run" where "s6 =
     \<lparr>log = [(INFO, Establishing_connection), (INFO, Connection_successful),
                   (INFO, Reading_data),
                   (INFO, Data_read (length (rows raw)) (length (labels raw))),
                   (INFO, Date_transformed), (INFO, Normalization_complete)],
            engine = True, disposed = False, sink = processed w, propagated = None\<rparr>"
  from load_tables_raises [where ws = "to_sql w" and s = s6, OF assms(6,7)]
  obtain e' t' n' d' where e': "to_sql w t' n' d' = Inl e'"
    and "fst (load_tables (to_sql w) (loads st) s6) = Some e'"
    by blast
  then obtain s where L: "load_tables (to_sql w) (loads st) s6 = (Some e', s)"
    by (cases "load_tables (to_sql w) (loads st) s6") simp
  have "transform_data w = finally_clause (except_clauses e' s)"
    using L by (simp add: run_loads [OF assms(1-5)] s6_def)
  then have "last (log (transform_data w)) = error_record e'"
    by (simp add: finally_clause_def except_clauses_logs)
  with e' show ?thesis by blast
qed

lemma run_schema_raises:
  assumes "create_engine w = None" and "connect w = None" and "read_sql_table w = Inr raw"
    and "(\<exists>c \<in> set (''invoice_date'' # required_labels). c \<notin> set (clean_labels (str_strip w) (str_lower w) (labels raw)))
         \<or> (\<exists>r \<in> set (rows raw). to_datetime w (invoice_date r) = None)"
  shows "\<exists>e. (e = KeyError \<or> e = ValueError)
           \<and> (transform_data w =
                 \<lparr>log = [(INFO, Establishing_connection), (INFO, Connection_successful),
                         (INFO, Reading_data),
                         (INFO, Data_read (length (rows raw)) (length (labels raw))),
                         (ERROR, Unexpected_error e)],
                  engine = True, disposed = True, sink = processed w, propagated = None\<rparr>
               \<or> transform_data w =
                 \<lparr>log = [(INFO, Establishing_connection), (INFO, Connection_successful),
                         (INFO, Reading_data),
                         (INFO, Data_read (length (rows raw)) (length (labels raw))),
                         (INFO, Date_transformed), (ERROR, Unexpected_error e)],
                  engine = True, disposed = True, sink = processed w, propagated = None\<rparr>)"
proof -
  from missing_or_bad_date [OF assms(4)]
  consider e where "clean (str_strip w) (str_lower w) (to_datetime w) raw = Inl e"
    | df e where "clean (str_strip w) (str_lower w) (to_datetime w) raw = Inr df"
        "normalize df = Inl e"
    by blast
  then show ?thesis
  proof cases
    case 1
    from clean_Inl [OF 1] have e: "e = KeyError \<or> e = ValueError" .
    then have "error_record e = (ERROR, Unexpected_error e)" by (auto simp: error_record_def)
    with run_clean_raises [OF assms(1-3) 1] e show ?thesis by auto
  next
    case 2
    from normalize_Inl [OF 2(2)] have e: "e = KeyError \<or> e = ValueError" .
    then have "error_record e = (ERROR, Unexpected_error e)" by (auto simp: error_record_def)
    with run_normalize_raises [OF assms(1-3) 2] e show ?thesis by auto
  qed
qed

subsection \<open>Rows through the cleaning and the merges\<close>

lemma map_map2_const:
  assumes "length ds = length xs" and "\<And>d x. g (f d x) = h x"
  shows "map g (map2 f ds xs) = map h xs"
  using assms(1) by (induction ds xs rule: list_induct2) (simp_all add: assms(2))

lemma clean_rows:
  assumes "clean strip lower to_dt raw = Inr df" and "\<And>d x. g (with_invoice_date d x) = h x"
  shows "map g (rows df) = map h (rows raw)"
proof -
  from assms(1) obtain ds where ds: "those (map (\<lambda>r. to_dt (invoice_date r)) (rows raw)) = Some ds"
    and df: "rows df = map2 with_invoice_date ds (rows raw)"
    by (auto simp: clean_def Let_def split: if_splits option.splits)
  from those_map_length [OF ds] have "length ds = length (rows raw)" .
  then show ?thesis unfolding df using assms(2) by (rule map_map2_const)
qed

lemma fact_df_sources: "source_row ` set (fact_df df st ct pt mt) = set df"
proof -
  define m1 where "m1 = merge_left state st_state_name df st"
  define m2 where "m2 = merge_left (\<lambda>(r, s). (city r, map_option st_state_id s))
                 (\<lambda>c. (ct_city_name c, ct_state_id c)) m1 ct"
  define m3 where "m3 = merge_left (\<lambda>((r, s), c). product r) pr_product_name m2 pt"
  define m4 where "m4 = merge_left (\<lambda>(((r, s), c), p). sales_method r) sm_method_name m3 mt"
  have fd: "fact_df df st ct pt mt = m4"
    by (simp add: fact_df_def m1_def m2_def m3_def m4_def)
  have "source_row ` set m4 = fst ` fst ` fst ` fst ` set m4"
    by (simp add: image_image source_row_fst)
  also have "\<dots> = set df"
    by (simp only: m4_def m3_def m2_def m1_def fst_set_merge_left)
  finally show ?thesis by (simp add: fd)
qed

lemma find_map_key:
  "find (\<lambda>r. k r = a) xs = Some r \<Longrightarrow> find (\<lambda>y. fst y = a) (map (\<lambda>r. (k r, v r)) xs) = Some (k r, v r)"
  by (induction xs) (auto split: if_splits)

lemma find_filter_distinct:
  assumes "distinct (map k xs)" and "find (\<lambda>y. k y = a) xs = Some x"
  shows "filter (\<lambda>y. k y = a) xs = [x]"
  using assms
proof (induction xs)
  case Nil
  then show ?case by simp
next
  case (Cons y ys)
  show ?case
  proof (cases "k y = a")
    case True
    with Cons.prems have x: "x = y" by simp
    from Cons.prems True have "a \<notin> k ` set ys" by auto
    then have "\<forall>z \<in> set ys. k z \<noteq> a" by (metis imageI)
    then have "filter (\<lambda>y. k y = a) ys = []" by (simp add: filter_empty_conv)
    with True x show ?thesis by simp
  next
    case False
    with Cons show ?thesis by simp
  qed
qed

text \<open>The product table has one row for a product name, with the price of its first row.\<close>

lemma product_first_price:
  assumes "find (\<lambda>r. product r = p) df = Some r"
  shows "\<exists>x. filter (\<lambda>x. pr_product_name x = p) (dim_product df) = [x]
            \<and> pr_price_per_unit x = price_per_unit r"
proof -
  let ?proj = "\<lambda>x. (pr_product_name x, pr_price_per_unit x)"
  let ?dd = "drop_duplicates_subset fst (map (\<lambda>r. (product r, price_per_unit r)) df)"
  from assms have p: "product r = p" by (auto simp: find_Some_iff)
  from find_map_key [OF assms, of price_per_unit]
  have "find (\<lambda>y. fst y = p) ?dd = Some (product r, price_per_unit r)"
    by (simp only: drop_duplicates_subset_find)
  with drop_duplicates_subset_distinct [of fst]
  have "filter (\<lambda>y. fst y = p) ?dd = [(product r, price_per_unit r)]"
    by (rule find_filter_distinct)
  then have "filter (\<lambda>y. fst y = p) (map ?proj (dim_product df)) = [(product r, price_per_unit r)]"
    by (simp only: product_rows)
  then have "map ?proj (filter (\<lambda>x. pr_product_name x = p) (dim_product df))
               = [(product r, price_per_unit r)]"
    by (simp add: filter_map comp_def)
  then obtain x where "filter (\<lambda>x. pr_product_name x = p) (dim_product df) = [x]"
    and "?proj x = (product r, price_per_unit r)"
    by (auto simp: map_eq_Cons_conv)
  then show ?thesis by auto
qed

subsection \<open>Runs that stop\<close>

lemma loads_names: "map (\<lambda>(t, n, d). n) (loads st) = table_names"
  by (simp add: loads_def table_names_def)

lemma map_of_rev_distinct:
  assumes "distinct (map fst xs)"
  shows "map_of (rev xs) = map_of xs"
proof (rule ext)
  fix k
  show "map_of (rev xs) k = map_of xs k"
  proof (cases "map_of xs k")
    case None
    then have "k \<notin> fst ` set xs" by (simp add: map_of_eq_None_iff)
    then have "k \<notin> fst ` set (rev xs)" by simp
    then have "map_of (rev xs) k = None" by (metis map_of_eq_None_iff)
    with None show ?thesis by simp
  next
    case (Some v)
    then have "(k, v) \<in> set (rev xs)" by (auto dest: map_of_SomeD)
    moreover from assms have "distinct (map fst (rev xs))" by (simp add: rev_map [symmetric])
    ultimately have "map_of (rev xs) k = Some v" by (rule map_of_is_SomeI [rotated])
    with Some show ?thesis by simp
  qed
qed

text \<open>
  A run that gets to the loading, loads the first tables and meets a write that raises.
\<close>

lemma run_write_stops:
  assumes "create_engine (w :: ('n, 'r, 'd) world) = None" and "connect w = None"
    and "read_sql_table w = Inr raw"
    and "clean (str_strip w) (str_lower w) (to_datetime w) raw = Inr df"
    and "normalize df = Inr st"
    and "loads st = before @ (t, n, d) # after"
    and "\<And>t' n' d'. (t', n', d') \<in> set before \<Longrightarrow> to_sql w t' n' d' = Inr t'"
    and "to_sql w t n d = Inl e"
  shows "propagated (transform_data w) = None"
    and "disposed (transform_data w)"
    and "last (log (transform_data w)) = error_record e"
    and "sink (transform_data w) = processed w ++ map_of (map (\<lambda>(t, n, d). (n, t)) before)"
proof -
  define s6 :: "('n, 'd) run" where "s6 =
     \<lparr>log = [(INFO, Establishing_connection), (INFO, Connection_successful),
                   (INFO, Reading_data),
                   (INFO, Data_read (length (rows raw)) (length (labels raw))),
                   (INFO, Date_transformed), (INFO, Normalization_complete)],
            engine = True, disposed = False, sink = processed w, propagated = None\<rparr>"
  let ?xs = "map (\<lambda>(t, n, d). (n, t)) before"
  have L: "load_tables (to_sql w) (loads st) s6 =
           (Some e,
            s6\<lparr>log := log s6 @ map (\<lambda>(t, n, d). (INFO, Loading_table n (len t)))
                               (before @ [(t, n, d)]),
               sink := sink s6 ++ map_of (rev ?xs)\<rparr>)"
    unfolding assms(6)
    by (rule load_tables_stops [where stored = "\<lambda>t n d. t"]) (simp_all add: assms(7,8))
  have T: "transform_data w = finally_clause (except_clauses e
            (s6\<lparr>log := log s6 @ map (\<lambda>(t, n, d). (INFO, Loading_table n (len t)))
                               (before @ [(t, n, d)]),
               sink := sink s6 ++ map_of (rev ?xs)\<rparr>))"
    using L by (simp add: run_loads [OF assms(1-5)] s6_def)
  have "fst \<circ> (\<lambda>(t, n, d). (n, t)) = (\<lambda>(t :: ('n, 'd) table, n :: string, d :: dtypes). n)"
    by (auto simp: fun_eq_iff)
  then have eq: "map fst ?xs = map (\<lambda>(t, n, d). n) before"
    by simp
  have "distinct (map (\<lambda>(t, n, d). n) (loads st))"
    by (simp add: loads_names table_names_def)
  then have "distinct (map (\<lambda>(t, n, d). n) before)"
    by (simp add: assms(6))
  then have "distinct (map fst ?xs)" by (simp only: eq)
  then have rev: "map_of (rev ?xs) = map_of ?xs" by (rule map_of_rev_distinct)
  show "propagated (transform_data w) = None"
    by (simp add: T finally_clause_def except_clauses_logs s6_def)
  show "disposed (transform_data w)"
    by (simp add: T finally_clause_def except_clauses_logs s6_def)
  show "last (log (transform_data w)) = error_record e"
    by (simp add: T finally_clause_def except_clauses_logs)
  show "sink (transform_data w) = processed w ++ map_of ?xs"
    by (simp add: T finally_clause_def except_clauses_logs s6_def rev)
qed

text \<open>
  A run in which a required column is absent or a date cannot be converted ends before
  the loading.
\<close>

lemma schema_error_writes_nothing:
  assumes "create_engine w = None" and "connect w = None" and "read_sql_table w = Inr raw"
    and "(\<exists>c \<in> set (''invoice_date'' # required_labels). c \<notin> set (clean_labels (str_strip w) (str_lower w) (labels raw)))
         \<or> (\<exists>r \<in> set (rows raw). to_datetime w (invoice_date r) = None)"
  shows "propagated (transform_data w) = None
       \<and> sink (transform_data w) = processed w
       \<and> disposed (transform_data w)
       \<and> (last (log (transform_data w)) = (ERROR, Unexpected_error KeyError)
          \<or> last (log (transform_data w)) = (ERROR, Unexpected_error ValueError))
       \<and> (INFO, Normalization_complete) \<notin> set (log (transform_data w))"
proof -
  from run_schema_raises [OF assms]
  obtain e where e: "e = KeyError \<or> e = ValueError"
    and T: "transform_data w =
                 \<lparr>log = [(INFO, Establishing_connection), (INFO, Connection_successful),
                         (INFO, Reading_data),
                         (INFO, Data_read (length (rows raw)) (length (labels raw))),
                         (ERROR, Unexpected_error e)],
                  engine = True, disposed = True, sink = processed w, propagated = None\<rparr>
               \<or> transform_data w =
                 \<lparr>log = [(INFO, Establishing_connection), (INFO, Connection_successful),
                         (INFO, Reading_data),
                         (INFO, Data_read (length (rows raw)) (length (labels raw))),
                         (INFO, Date_transformed), (ERROR, Unexpected_error e)],
                  engine = True, disposed = True, sink = processed w, propagated = None\<rparr>"
    by blast
  from T show ?thesis
  proof
    assume "transform_data w =
                 \<lparr>log = [(INFO, Establishing_connection), (INFO, Connection_successful),
                         (INFO, Reading_data),
                         (INFO, Data_read (length (rows raw)) (length (labels raw))),
                         (ERROR, Unexpected_error e)],
                  engine = True, disposed = True, sink = processed w, propagated = None\<rparr>"
    with e show ?thesis by auto
  next
    assume "transform_data w =
                 \<lparr>log = [(INFO, Establishing_connection), (INFO, Connection_successful),
                         (INFO, Reading_data),
                         (INFO, Data_read (length (rows raw)) (length (labels raw))),
                         (INFO, Date_transformed), (ERROR, Unexpected_error e)],
                  engine = True, disposed = True, sink = processed w, propagated = None\<rparr>"
    with e show ?thesis by auto
  qed
qed

subsection \<open>Surrogate keys of every dimension\<close>

lemma length_drop_duplicates: "length (drop_duplicates xs) = card (set xs)"
  using distinct_card [of "drop_duplicates xs"] by simp

text \<open>
  On every input the surrogate keys of each dimension table are 1..K in the order of
  the rows, K the number of rows, and no natural key occurs twice.
\<close>

lemma surrogate_keys_contiguous:
  "map rg_region_id (tbl_region (normalization df))
     = [1..<Suc (length (tbl_region (normalization df)))]"
  "map st_state_id (tbl_state (normalization df))
     = [1..<Suc (length (tbl_state (normalization df)))]"
  "map ct_city_id (tbl_city (normalization df))
     = [1..<Suc (length (tbl_city (normalization df)))]"
  "map pr_product_id (tbl_product (normalization df))
     = [1..<Suc (length (tbl_product (normalization df)))]"
  "map sm_sales_method_id (tbl_sales_method (normalization df))
     = [1..<Suc (length (tbl_sales_method (normalization df)))]"
  by (simp_all only: normalization_tables region_ids state_ids city_ids product_ids method_ids)

lemma natural_keys_distinct:
  "distinct (map rg_region_name (tbl_region (normalization df)))"
  "distinct (map (\<lambda>s. (st_state_name s, st_region_id s)) (tbl_state (normalization df)))"
  "distinct (map (\<lambda>c. (ct_city_name c, ct_state_id c)) (tbl_city (normalization df)))"
  "distinct (map pr_product_name (tbl_product (normalization df)))"
  "distinct (map sm_method_name (tbl_sales_method (normalization df)))"
  by (simp_all only: normalization_tables distinct_region_names distinct_state_keys
        distinct_city_keys distinct_product_names distinct_method_names)

text \<open>
  For the region, the product and the sales method K is the number of distinct names of
  the input, and the retailer ids of the retailer table are those of the input.
\<close>

lemma single_column_counts:
  "length (tbl_region (normalization df)) = card (region ` set df)"
  "length (tbl_product (normalization df)) = card (product ` set df)"
  "length (tbl_sales_method (normalization df)) = card (sales_method ` set df)"
proof -
  have "length (map rg_region_name (dim_region df)) = card (set (map region df))"
    by (simp only: region_names length_drop_duplicates)
  then show "length (tbl_region (normalization df)) = card (region ` set df)"
    by (simp add: normalization_tables)
  have "length (map pr_product_name (dim_product df))
          = card (set (map pr_product_name (dim_product df)))"
    by (rule distinct_card [symmetric]) (rule distinct_product_names)
  then show "length (tbl_product (normalization df)) = card (product ` set df)"
    by (simp add: normalization_tables product_name_set)
  have "length (map sm_method_name (dim_sales_method df)) = card (set (map sales_method df))"
    by (simp only: method_names length_drop_duplicates)
  then show "length (tbl_sales_method (normalization df)) = card (sales_method ` set df)"
    by (simp add: normalization_tables)
qed

lemma retailer_ids: "dr_retailer_id ` set (tbl_retailer (normalization df)) = retailer_id ` set df"
proof -
  have "fst ` (\<lambda>t. (dr_retailer_id t, dr_retailer_name t)) ` set (dim_retailer df)
          = fst ` (\<lambda>r. (retailer_id r, retailer r)) ` set df"
    by (simp only: retailer_pair_set)
  then show ?thesis by (simp add: image_image normalization_tables)
qed

text \<open>The transaction ids are 1..M in the order of the fact rows, M their number.\<close>

lemma transaction_ids_contiguous:
  "map transaction_id (tbl_sales_transaction (normalization df))
     = [1..<Suc (length (tbl_sales_transaction (normalization df)))]"
  by (simp only: normalization_tables transaction_ids)

text \<open>
  Where every input row finds exactly one state row of its state name, the fact table
  has the rows of the input in their order. (The lookups of the city, the product and
  the sales method find at most one row on every input.)
\<close>

lemma row_count_preserved:
  assumes "\<forall>r \<in> set df.
             length (filter (\<lambda>s. st_state_name s = state r) (tbl_state (normalization df))) = 1"
  shows "length (tbl_sales_transaction (normalization df)) = length df
       \<and> map f_retailer_id (tbl_sales_transaction (normalization df)) = map retailer_id df
       \<and> map f_invoice_date (tbl_sales_transaction (normalization df)) = map invoice_date df
       \<and> map f_units_sold (tbl_sales_transaction (normalization df)) = map units_sold df
       \<and> map f_total_sales (tbl_sales_transaction (normalization df)) = map total_sales df
       \<and> map f_operating_profit (tbl_sales_transaction (normalization df))
           = map operating_profit df
       \<and> map f_operating_margin (tbl_sales_transaction (normalization df))
           = map operating_margin df"
proof -
  let ?st = "dim_state df (dim_region df)"
  let ?ct = "dim_city df ?st"
  let ?fd = "fact_df df ?st ?ct (dim_product df) (dim_sales_method df)"
  from assms have "\<forall>r \<in> set df. length (filter (\<lambda>s. st_state_name s = state r) ?st) \<le> 1"
    by (simp add: normalization_tables)
  then have src: "map source_row ?fd = df"
    by (rule fact_df_in_order)
       (rule distinct_city_keys distinct_product_names distinct_method_names)+
  have len: "length (tbl_sales_transaction (normalization df)) = length ?fd"
    by (simp add: normalization_tables fact_table_def)
  have "length ?fd = length (map source_row ?fd)" by simp
  with src len have "length (tbl_sales_transaction (normalization df)) = length df" by simp
  moreover have "map f_retailer_id (tbl_sales_transaction (normalization df)) = map retailer_id df"
    by (simp only: normalization_tables map_fact_table [where g = f_retailer_id and h = retailer_id, OF fact_row_of_passthrough(1)] src)
  moreover have "map f_invoice_date (tbl_sales_transaction (normalization df)) = map invoice_date df"
    by (simp only: normalization_tables map_fact_table [where g = f_invoice_date and h = invoice_date, OF fact_row_of_passthrough(2)] src)
  moreover have "map f_units_sold (tbl_sales_transaction (normalization df)) = map units_sold df"
    by (simp only: normalization_tables map_fact_table [where g = f_units_sold and h = units_sold, OF fact_row_of_passthrough(3)] src)
  moreover have "map f_total_sales (tbl_sales_transaction (normalization df)) = map total_sales df"
    by (simp only: normalization_tables map_fact_table [where g = f_total_sales and h = total_sales, OF fact_row_of_passthrough(4)] src)
  moreover have "map f_operating_profit (tbl_sales_transaction (normalization df))
                   = map operating_profit df"
    by (simp only: normalization_tables map_fact_table [where g = f_operating_profit and h = operating_profit, OF fact_row_of_passthrough(5)] src)
  moreover have "map f_operating_margin (tbl_sales_transaction (normalization df))
                   = map operating_margin df"
    by (simp only: normalization_tables map_fact_table [where g = f_operating_margin and h = operating_margin, OF fact_row_of_passthrough(6)] src)
  ultimately show ?thesis by simp
qed

subsection \<open>The order of the rows read\<close>

text \<open>The cleaned rows are a function of the rows read and of the conversion of the dates.\<close>

lemma clean_same_rows:
  assumes "clean strip1 lower1 to_dt raw1 = Inr df1"
    and "clean strip2 lower2 to_dt raw2 = Inr df2"
    and "rows raw1 = rows raw2"
  shows "rows df1 = rows df2"
  using assms by (auto simp: clean_def Let_def split: if_splits option.splits)

text \<open>
  What a dimension table of a single column holds depends on the records only, not on
  their order.
\<close>

lemma length_dim_retailer:
  "length (dim_retailer df) = card ((\<lambda>r. (retailer_id r, retailer r)) ` set df)"
proof -
  have "length (map (\<lambda>t. (dr_retailer_id t, dr_retailer_name t)) (dim_retailer df))
          = card (set (map (\<lambda>r. (retailer_id r, retailer r)) df))"
    by (simp only: retailer_rows length_drop_duplicates)
  then show ?thesis by simp
qed

lemma permuted_rows:
  assumes "clean strip1 lower1 to_dt1 (raw1 :: ('n, 'r) frame) = Inr (df1 :: ('n, 'd) frame)"
    and "clean strip2 lower2 to_dt2 (raw2 :: ('n, 'r) frame) = Inr (df2 :: ('n, 'd) frame)"
    and "mset (rows raw1) = mset (rows raw2)"
  shows "region ` set (rows df1) = region ` set (rows df2)"
    and "product ` set (rows df1) = product ` set (rows df2)"
    and "sales_method ` set (rows df1) = sales_method ` set (rows df2)"
    and "(\<lambda>r. (retailer_id r, retailer r)) ` set (rows df1)
           = (\<lambda>r. (retailer_id r, retailer r)) ` set (rows df2)"
proof -
  from assms(3) have s: "set (rows raw1) = set (rows raw2)" by (rule mset_eq_setD)
  have a: "g ` set (rows df1) = h ` set (rows raw1)" "g ` set (rows df2) = h ` set (rows raw2)"
    if "\<And>d x. g (with_invoice_date d x) = h x"
    for g :: "('n, 'd) sales_row \<Rightarrow> 'k" and h :: "('n, 'r) sales_row \<Rightarrow> 'k"
  proof -
    from clean_rows [OF assms(1), of g h] that
    have "set (map g (rows df1)) = set (map h (rows raw1))" by simp
    then show "g ` set (rows df1) = h ` set (rows raw1)" by simp
    from clean_rows [OF assms(2), of g h] that
    have "set (map g (rows df2)) = set (map h (rows raw2))" by simp
    then show "g ` set (rows df2) = h ` set (rows raw2)" by simp
  qed
  show "region ` set (rows df1) = region ` set (rows df2)"
    using a [of region region] s by (simp add: with_invoice_date_def)
  show "product ` set (rows df1) = product ` set (rows df2)"
    using a [of product product] s by (simp add: with_invoice_date_def)
  show "sales_method ` set (rows df1) = sales_method ` set (rows df2)"
    using a [of sales_method sales_method] s by (simp add: with_invoice_date_def)
  show "(\<lambda>r. (retailer_id r, retailer r)) ` set (rows df1)
           = (\<lambda>r. (retailer_id r, retailer r)) ` set (rows df2)"
    using a [of "\<lambda>r. (retailer_id r, retailer r)" "\<lambda>r. (retailer_id r, retailer r)"] s
    by (simp add: with_invoice_date_def)
qed

section \<open>The examples, evaluated\<close>

lemma normalization_two_springfields:
  "normalization two_springfields =
     \<lparr>tbl_retailer = [\<lparr>dr_retailer_id = Some ''1'', dr_retailer_name = Some ''A''\<rparr>],
      tbl_region =
        [\<lparr>rg_region_name = Some ''East'', rg_region_id = 1\<rparr>,
         \<lparr>rg_region_name = Some ''West'', rg_region_id = 2\<rparr>],
      tbl_state =
        [\<lparr>st_state_name = Some ''Springfield'', st_region_id = Some 1, st_state_id = 1\<rparr>,
         \<lparr>st_state_name = Some ''Springfield'', st_region_id = Some 2, st_state_id = 2\<rparr>],
      tbl_city =
        [\<lparr>ct_city_name = Some ''Shelby'', ct_state_id = Some 1, ct_city_id = 1\<rparr>,
         \<lparr>ct_city_name = Some ''Shelby'', ct_state_id = Some 2, ct_city_id = 2\<rparr>,
         \<lparr>ct_city_name = Some ''Ogden'', ct_state_id = Some 1, ct_city_id = 3\<rparr>,
         \<lparr>ct_city_name = Some ''Ogden'', ct_state_id = Some 2, ct_city_id = 4\<rparr>],
      tbl_product =
        [\<lparr>pr_product_name = Some ''Shoes'', pr_price_per_unit = 50, pr_product_id = 1\<rparr>],
      tbl_sales_method = [\<lparr>sm_method_name = Some ''Online'', sm_sales_method_id = 1\<rparr>],
      tbl_sales_transaction =
        [\<lparr>transaction_id = 1, f_retailer_id = Some ''1'', f_invoice_date = ''2020-01-01'',
          f_city_id = Some 1, f_product_id = Some 1, f_units_sold = 10,
          f_total_sales = 500, f_operating_profit = 100, f_operating_margin = 0,
          f_sales_method_id = Some 1, f_region_id = Some 1\<rparr>,
         \<lparr>transaction_id = 2, f_retailer_id = Some ''1'', f_invoice_date = ''2020-01-01'',
          f_city_id = Some 2, f_product_id = Some 1, f_units_sold = 10,
          f_total_sales = 500, f_operating_profit = 100, f_operating_margin = 0,
          f_sales_method_id = Some 1, f_region_id = Some 2\<rparr>,
         \<lparr>transaction_id = 3, f_retailer_id = Some ''1'', f_invoice_date = ''2020-01-01'',
          f_city_id = Some 3, f_product_id = Some 1, f_units_sold = 10,
          f_total_sales = 500, f_operating_profit = 100, f_operating_margin = 0,
          f_sales_method_id = Some 1, f_region_id = Some 1\<rparr>,
         \<lparr>transaction_id = 4, f_retailer_id = Some ''1'', f_invoice_date = ''2020-01-01'',
          f_city_id = Some 4, f_product_id = Some 1, f_units_sold = 10,
          f_total_sales = 500, f_operating_profit = 100, f_operating_margin = 0,
          f_sales_method_id = Some 1, f_region_id = Some 2\<rparr>]\<rparr>"
  by code_simp

lemma clean_labels_raw_labels:
  "clean_labels ascii_strip ascii_lower raw_labels =
     [''retailer'', ''retailer_id'', ''invoice_date'', ''region'', ''state'', ''city'',
      ''product'', ''price_per_unit'', ''units_sold'', ''total_sales'', ''operating_profit'',
      ''operating_margin'', ''sales_method'']"
  by code_simp

lemma clean_scenario:
  "clean ascii_strip ascii_lower iso_date \<lparr>labels = raw_labels, rows = scenario\<rparr>
     = Inr \<lparr>labels = clean_labels ascii_strip ascii_lower raw_labels, rows = scenario\<rparr>"
  by code_simp

lemma normalize_scenario:
  "normalize \<lparr>labels = clean_labels ascii_strip ascii_lower raw_labels, rows = scenario\<rparr>
     = Inr (normalization scenario)"
  by code_simp

lemma sales_method_missing:
  "''sales_method'' \<in> set (''invoice_date'' # required_labels)
   \<and> ''sales_method'' \<notin> set (clean_labels ascii_strip ascii_lower labels_without_sales_method)"
  by code_simp

lemma clean_shoes_two_prices:
  "clean ascii_strip ascii_lower iso_date \<lparr>labels = raw_labels, rows = shoes_two_prices\<rparr>
     = Inr \<lparr>labels = clean_labels ascii_strip ascii_lower raw_labels, rows = shoes_two_prices\<rparr>"
  by code_simp

lemma normalize_shoes_two_prices:
  "normalize \<lparr>labels = clean_labels ascii_strip ascii_lower raw_labels, rows = shoes_two_prices\<rparr>
     = Inr (normalization shoes_two_prices)"
  by code_simp

lemma find_shoes:
  "find (\<lambda>r. product r = Some ''Shoes'') shoes_two_prices
     = Some (sale (Some ''Retailer A'') (Some ''1'') ''East'' ''NY'' ''NYC'' ''Shoes'' 50 ''Online'')"
  by (simp add: shoes_two_prices_def sale_def)

lemma clean_null_retailer_id:
  "clean ascii_strip ascii_lower iso_date \<lparr>labels = raw_labels, rows = null_retailer_id\<rparr>
     = Inr \<lparr>labels = clean_labels ascii_strip ascii_lower raw_labels, rows = null_retailer_id\<rparr>"
  by code_simp

lemma normalize_null_retailer_id:
  "normalize \<lparr>labels = clean_labels ascii_strip ascii_lower raw_labels, rows = null_retailer_id\<rparr>
     = Inr (normalization null_retailer_id)"
  by code_simp

lemma facts_null_retailer_id:
  "tbl_sales_transaction (normalization null_retailer_id) =
     [\<lparr>transaction_id = 1, f_retailer_id = None, f_invoice_date = ''2020-01-01'',
       f_city_id = Some 1, f_product_id = Some 1, f_units_sold = 10,
       f_total_sales = 500, f_operating_profit = 100, f_operating_margin = 0,
       f_sales_method_id = Some 1, f_region_id = Some 1\<rparr>]"
  by code_simp

lemma clean_text_units:
  "clean ascii_strip ascii_lower iso_date \<lparr>labels = raw_labels, rows = text_units\<rparr>
     = Inr \<lparr>labels = clean_labels ascii_strip ascii_lower raw_labels, rows = text_units\<rparr>"
  by code_simp

lemma normalize_text_units:
  "normalize \<lparr>labels = clean_labels ascii_strip ascii_lower raw_labels, rows = text_units\<rparr>
     = Inr (normalization text_units)"
  by code_simp

lemma clean_rev_scenario:
  "clean ascii_strip ascii_lower iso_date \<lparr>labels = raw_labels, rows = rev scenario\<rparr>
     = Inr \<lparr>labels = clean_labels ascii_strip ascii_lower raw_labels, rows = rev scenario\<rparr>"
  by code_simp

lemma normalize_rev_scenario:
  "normalize \<lparr>labels = clean_labels ascii_strip ascii_lower raw_labels, rows = rev scenario\<rparr>
     = Inr (normalization (rev scenario))"
  by code_simp

section \<open>Claims\<close>

text \<open>
  C1 (scoping). The claim: for two states of one name in two regions, the state
  dimension has two distinct state_ids, every city resolves to its own parent state,
  and the fact build joins the state dimension on the region and the state name.
  On \<open>two_springfields\<close> the first part holds and the other two do not. The state
  table has Springfield twice, with state_id 1 in region 1 (East) and state_id 2 in
  region 2 (West). But line 90 and line 112 merge on the state name alone: the city
  table has Shelby (which the input has in the East only) under both states, and so
  Ogden; and the first input row (East) yields a fact row of region 2, the second
  (West) a fact row of region 1.
\<close>

theorem scoping_two_springfields:
  "map (\<lambda>s. (st_state_name s, st_region_id s, st_state_id s))
       (tbl_state (normalization two_springfields)) =
     [(Some ''Springfield'', Some 1, 1), (Some ''Springfield'', Some 2, 2)]
   \<and> map (\<lambda>c. (ct_city_name c, ct_state_id c))
       (tbl_city (normalization two_springfields)) =
     [(Some ''Shelby'', Some 1), (Some ''Shelby'', Some 2),
      (Some ''Ogden'', Some 1), (Some ''Ogden'', Some 2)]
   \<and> map region two_springfields = [Some ''East'', Some ''West'']
   \<and> map (\<lambda>f. (f_city_id f, f_region_id f))
       (tbl_sales_transaction (normalization two_springfields)) =
     [(Some 1, Some 1), (Some 2, Some 2), (Some 3, Some 1), (Some 4, Some 2)]"
  by (simp add: normalization_two_springfields) (simp add: two_springfields_def sale_def)

text \<open>
  C2 (row-count preservation). The claim: where every lookup of every row resolves, the
  fact table has exactly the N rows of the input. On \<open>two_springfields\<close> every
  row finds exactly one state row by the region key and the state name, which is the
  lookup of the specification, and no key of the fact table is missing; but line 112
  merges on the state name alone, which finds two state rows for each input row, and
  the fact table has 4 rows for the 2 rows of the input.
\<close>

theorem row_count_two_springfields:
  "length two_springfields = 2
   \<and> map (\<lambda>r. length (filter (\<lambda>s. st_state_name s = state r
                   \<and> st_region_id s =
                       map_option rg_region_id
                         (find (\<lambda>g. rg_region_name g = region r)
                            (tbl_region (normalization two_springfields))))
                 (tbl_state (normalization two_springfields))))
       two_springfields = [1, 1]
   \<and> map (\<lambda>f. (f_city_id f, f_product_id f, f_sales_method_id f, f_region_id f))
       (tbl_sales_transaction (normalization two_springfields)) =
     [(Some 1, Some 1, Some 1, Some 1), (Some 2, Some 1, Some 1, Some 2),
      (Some 3, Some 1, Some 1, Some 1), (Some 4, Some 1, Some 1, Some 2)]
   \<and> length (tbl_sales_transaction (normalization two_springfields)) = 4"
  by (simp add: normalization_two_springfields) (simp add: two_springfields_def sale_def)

text \<open>
  C3 (key uniqueness and contiguity). The claim: in each dimension the surrogate keys
  are 1..K, where K is the number of distinct natural keys. On \<open>two_springfields\<close> the
  input has two cities (Shelby in Springfield, East; Ogden in Springfield, West), and
  the city table has the keys 1..4: each city once under each of the two states named
  Springfield. (On every input the keys of each table are 1..K for its K rows and its
  natural keys are distinct, see \<open>surrogate_keys_contiguous\<close> and
  \<open>natural_keys_distinct\<close>; it is the number of city rows that is not the number
  of cities.)
\<close>

theorem city_keys_two_springfields:
  "card (set (map (\<lambda>r. (city r, state r, region r)) two_springfields)) = 2
   \<and> map ct_city_id (tbl_city (normalization two_springfields)) = [1, 2, 3, 4]"
  by (simp add: normalization_two_springfields) (simp add: two_springfields_def sale_def)




text \<open>
  C5 (transaction identifier). The claim: with N input rows the transaction_id column
  is 1..N, the i-th input row getting i. On \<open>two_springfields\<close> the input has two
  rows and the fact table has the transaction_ids 1..4: the merge on the state name
  yields two fact rows for each input row, and line 138 numbers the fact rows
  (\<open>transaction_ids_contiguous\<close>).
\<close>

theorem transaction_ids_two_springfields:
  "length two_springfields = 2
   \<and> map transaction_id (tbl_sales_transaction (normalization two_springfields))
       = [1, 2, 3, 4]"
  by (simp add: normalization_two_springfields) (simp add: two_springfields_def)




text \<open>
  C7 (a column that is absent or cannot be coerced). The claim: the transformation
  fails with a SchemaMismatch error, builds nothing and writes nothing. The code has
  no such error and no check of the columns. On a frame without the column of the
  sales method the \<open>KeyError\<close> of the selection is caught by the second
  \<^verbatim>\<open>except\<close> clause and logged as an unexpected error, and the function returns
  normally. On \<open>text_units\<close>, where no cell of the units sold is a number, nothing
  fails before the loading: the six dimension tables are written, the write of the
  fact table raises in the destination, which is logged as a database error, and the
  function returns normally with six of the seven tables replaced.
\<close>

theorem schema_mismatch_counterexample:
  "propagated (transform_data (world_of labels_without_sales_method scenario)) = None
   \<and> log (transform_data (world_of labels_without_sales_method scenario)) =
       [(INFO, Establishing_connection), (INFO, Connection_successful),
        (INFO, Reading_data), (INFO, Data_read 3 12), (INFO, Date_transformed),
        (ERROR, Unexpected_error KeyError)]
   \<and> propagated (transform_data world_text_units) = None
   \<and> map (has_table (transform_data world_text_units)) table_names =
       [True, True, True, True, True, True, False]
   \<and> last (log (transform_data world_text_units)) = (ERROR, Database_error SQLAlchemyError)"
  by code_simp

text \<open>
  C7, as the code has it. In a run that reads its frame: when a required column is
  absent, or an invoice date cannot be converted, no exception leaves the function,
  the last log record is the unexpected error of a \<open>KeyError\<close> or a \<open>ValueError\<close>,
  the normalisation was not completed, the schema \<^verbatim>\<open>processed\<close> is as it was
  before the run, and the engine is disposed. When the frame is cleaned and normalised
  and the destination raises on the write of a table (as it does for a column that
  cannot be coerced to the type of the \<^verbatim>\<open>dtype\<close> map), after storing the tables
  before it as they are: no exception leaves the function, the last log record is the
  error record of that exception, the engine is disposed, and the schema holds the
  tables before the failing one, every other table as it was before the run.
\<close>

theorem schema_mismatch_is_caught:
  assumes "create_engine w = None" and "connect w = None" and "read_sql_table w = Inr raw"
  shows "((\<exists>c \<in> set (''invoice_date'' # required_labels).
              c \<notin> set (clean_labels (str_strip w) (str_lower w) (labels raw)))
          \<or> (\<exists>r \<in> set (rows raw). to_datetime w (invoice_date r) = None)
        \<longrightarrow> propagated (transform_data w) = None
            \<and> sink (transform_data w) = processed w
            \<and> disposed (transform_data w)
            \<and> (last (log (transform_data w)) = (ERROR, Unexpected_error KeyError)
               \<or> last (log (transform_data w)) = (ERROR, Unexpected_error ValueError))
            \<and> (INFO, Normalization_complete) \<notin> set (log (transform_data w)))
       \<and> (clean (str_strip w) (str_lower w) (to_datetime w) raw = Inr df
          \<and> normalize df = Inr st
          \<and> loads st = before @ (t, n, d) # after
          \<and> (\<forall>x \<in> set before. to_sql w (fst x) (fst (snd x)) (snd (snd x)) = Inr (fst x))
          \<and> to_sql w t n d = Inl e
        \<longrightarrow> propagated (transform_data w) = None
            \<and> disposed (transform_data w)
            \<and> last (log (transform_data w)) = error_record e
            \<and> sink (transform_data w)
                = processed w ++ map_of (map (\<lambda>(t, n, d). (n, t)) before))"
proof (intro conjI impI)
  assume "(\<exists>c \<in> set (''invoice_date'' # required_labels).
              c \<notin> set (clean_labels (str_strip w) (str_lower w) (labels raw)))
          \<or> (\<exists>r \<in> set (rows raw). to_datetime w (invoice_date r) = None)"
  from schema_error_writes_nothing [OF assms this]
  show "propagated (transform_data w) = None"
    and "sink (transform_data w) = processed w"
    and "disposed (transform_data w)"
    and "last (log (transform_data w)) = (ERROR, Unexpected_error KeyError)
               \<or> last (log (transform_data w)) = (ERROR, Unexpected_error ValueError)"
    and "(INFO, Normalization_complete) \<notin> set (log (transform_data w))"
    by simp_all
next
  assume a: "clean (str_strip w) (str_lower w) (to_datetime w) raw = Inr df
          \<and> normalize df = Inr st
          \<and> loads st = before @ (t, n, d) # after
          \<and> (\<forall>x \<in> set before. to_sql w (fst x) (fst (snd x)) (snd (snd x)) = Inr (fst x))
          \<and> to_sql w t n d = Inl e"
  then have b: "\<And>t' n' d'. (t', n', d') \<in> set before \<Longrightarrow> to_sql w t' n' d' = Inr t'"
    by force
  from a have c: "clean (str_strip w) (str_lower w) (to_datetime w) raw = Inr df"
    "normalize df = Inr st" "loads st = before @ (t, n, d) # after" "to_sql w t n d = Inl e"
    by simp_all
  note R = run_write_stops [OF assms c(1-3) b c(4)]
  show "propagated (transform_data w) = None" by (rule R(1))
  show "disposed (transform_data w)" by (rule R(2))
  show "last (log (transform_data w)) = error_record e" by (rule R(3))
  show "sink (transform_data w) = processed w ++ map_of (map (\<lambda>(t, n, d). (n, t)) before)"
    by (rule R(4))
qed

theorem schema_mismatch_is_caught_witness:
  "''sales_method'' \<in> set (''invoice_date'' # required_labels)
   \<and> ''sales_method'' \<notin> set (clean_labels ascii_strip ascii_lower labels_without_sales_method)
   \<and> propagated (transform_data (world_of labels_without_sales_method scenario)) = None
   \<and> sink (transform_data (world_of labels_without_sales_method scenario)) = (\<lambda>name. None)
   \<and> disposed (transform_data (world_of labels_without_sales_method scenario))
   \<and> to_sql world_text_units
        (Sales_transaction (tbl_sales_transaction (normalization text_units)))
        ''sales_transaction'' fact_dtypes = Inl SQLAlchemyError
   \<and> propagated (transform_data world_text_units) = None
   \<and> disposed (transform_data world_text_units)
   \<and> last (log (transform_data world_text_units)) = (ERROR, Database_error SQLAlchemyError)
   \<and> map (has_table (transform_data world_text_units)) table_names
       = [True, True, True, True, True, True, False]"
proof -
  let ?w1 = "world_of labels_without_sales_method scenario"
  have h: "(\<exists>c \<in> set (''invoice_date'' # required_labels).
              c \<notin> set (clean_labels (str_strip ?w1) (str_lower ?w1)
                          (labels \<lparr>labels = labels_without_sales_method, rows = scenario\<rparr>)))
           \<or> (\<exists>r \<in> set (rows \<lparr>labels = labels_without_sales_method, rows = scenario\<rparr>).
                 to_datetime ?w1 (invoice_date r) = None)"
    using sales_method_missing by (auto simp: world_of_def)
  have w1: "create_engine ?w1 = None" "connect ?w1 = None"
    "read_sql_table ?w1 = Inr \<lparr>labels = labels_without_sales_method, rows = scenario\<rparr>"
    by (simp_all add: world_of_def)
  note A = schema_mismatch_is_caught [OF w1, THEN conjunct1, rule_format, OF h]
  let ?w2 = "world_text_units"
  let ?st = "normalization text_units"
  let ?t = "Sales_transaction (tbl_sales_transaction ?st)"
  have w2: "create_engine ?w2 = None" "connect ?w2 = None"
    "read_sql_table ?w2 = Inr \<lparr>labels = raw_labels, rows = text_units\<rparr>"
    by (simp_all add: world_text_units_def)
  have c: "clean (str_strip ?w2) (str_lower ?w2) (to_datetime ?w2)
             \<lparr>labels = raw_labels, rows = text_units\<rparr>
           = Inr \<lparr>labels = clean_labels ascii_strip ascii_lower raw_labels, rows = text_units\<rparr>"
    using clean_text_units by (simp add: world_text_units_def)
  have l: "loads ?st = butlast (loads ?st) @ (?t, ''sales_transaction'', fact_dtypes) # []"
    by (simp add: loads_def)
  have b: "\<forall>x \<in> set (butlast (loads ?st)).
             to_sql ?w2 (fst x) (fst (snd x)) (snd (snd x)) = Inr (fst x)"
    by code_simp
  have f: "to_sql ?w2 ?t ''sales_transaction'' fact_dtypes = Inl SQLAlchemyError"
    by code_simp
  have g: "clean (str_strip ?w2) (str_lower ?w2) (to_datetime ?w2)
             \<lparr>labels = raw_labels, rows = text_units\<rparr>
           = Inr \<lparr>labels = clean_labels ascii_strip ascii_lower raw_labels, rows = text_units\<rparr>
          \<and> normalize \<lparr>labels = clean_labels ascii_strip ascii_lower raw_labels,
                         rows = text_units\<rparr> = Inr ?st
          \<and> loads ?st = butlast (loads ?st) @ (?t, ''sales_transaction'', fact_dtypes) # []
          \<and> (\<forall>x \<in> set (butlast (loads ?st)).
                to_sql ?w2 (fst x) (fst (snd x)) (snd (snd x)) = Inr (fst x))
          \<and> to_sql ?w2 ?t ''sales_transaction'' fact_dtypes = Inl SQLAlchemyError"
    using c normalize_text_units l b f by (intro conjI)
  note B = schema_mismatch_is_caught [OF w2, THEN conjunct2, rule_format, OF g]
  have s: "map (has_table (transform_data world_text_units)) table_names
       = [True, True, True, True, True, True, False]"
    using B by (simp add: has_table_def table_names_def loads_def world_text_units_def)
  from A B f s sales_method_missing show ?thesis
    by (simp add: world_of_def error_record_def)
qed




text \<open>
  C9 (retailer ids). The claim: the retailer table has at most one row for a
  retailer_id. Line 72 drops the duplicates of the pairs of id and name, not of the id
  (as line 97 does for the product name): on \<open>one_id_two_names\<close> the retailer table
  has two rows of the id 1185732.
\<close>

theorem retailer_one_id_two_names:
  "tbl_retailer (normalization one_id_two_names) =
     [\<lparr>dr_retailer_id = Some ''1185732'', dr_retailer_name = Some ''Foot Locker''\<rparr>,
      \<lparr>dr_retailer_id = Some ''1185732'', dr_retailer_name = Some ''Walmart''\<rparr>]"
  by code_simp




end
